theory Spec2Isabelle
  imports Main
begin

section \<open>JavaScript strings and numbers used by the service\<close>

text \<open>
  Strings are character lists. \<open>startsWith\<close>, \<open>endsWith\<close> and \<open>padStart\<close> follow
  the ECMAScript library functions of the same names; \<open>String_of\<close> is \<open>String(value)\<close>
  on a non-negative integer (its decimal numeral).
\<close>

definition startsWith :: "string \<Rightarrow> string \<Rightarrow> bool" where
  "startsWith value pre = (take (length pre) value = pre)"

definition endsWith :: "string \<Rightarrow> string \<Rightarrow> bool" where
  "endsWith value suf =
     (length suf \<le> length value \<and> drop (length value - length suf) value = suf)"

definition digit_char :: "nat \<Rightarrow> char" where
  "digit_char d = ''0123456789'' ! d"

fun String_of :: "nat \<Rightarrow> string" where
  "String_of n =
     (if n < 10 then [digit_char n] else String_of (n div 10) @ [digit_char (n mod 10)])"

declare String_of.simps [simp del]

definition padStart :: "string \<Rightarrow> nat \<Rightarrow> string \<Rightarrow> string" where
  "padStart value targetLength padString =
     (if targetLength \<le> length value \<or> padString = [] then value
      else take (targetLength - length value)
             (concat (replicate (targetLength - length value) padString)) @ value)"

text \<open>\<open>const ensureTrailingSlash = (value) => (value.endsWith('/') ? value : `${value}/`)\<close>\<close>

definition ensureTrailingSlash :: "string \<Rightarrow> string" where
  "ensureTrailingSlash value = (if endsWith value ''/'' then value else value @ ''/'')"

text \<open>\<open>const padNumber = (value, size = 3) => String(value).padStart(size, '0')\<close>\<close>

definition padNumber :: "nat \<Rightarrow> nat \<Rightarrow> string" where
  "padNumber value targetSize = padStart (String_of value) targetSize ''0''"

text \<open>
  \<open>buildStoragePath\<close> is the template of lines 38-39; \<open>thumbStoragePath\<close> and
  \<open>manifestPath\<close> are the templates written out again inside the handler
  (lines 181 and 218). The default size 3 of \<open>padNumber\<close> is passed explicitly.
\<close>

definition buildStoragePath :: "string \<Rightarrow> string \<Rightarrow> nat \<Rightarrow> string" where
  "buildStoragePath editionId variant pageNumber =
     editionId @ ''/pages/'' @ variant @ ''/'' @ padNumber pageNumber 3 @ ''.webp''"

definition thumbStoragePath :: "string \<Rightarrow> string \<Rightarrow> nat \<Rightarrow> string" where
  "thumbStoragePath editionId thumbnailKey pageNumber =
     editionId @ ''/pages/'' @ thumbnailKey @ ''/'' @ padNumber pageNumber 3 @ ''.webp''"

definition manifestPath :: "string \<Rightarrow> string" where
  "manifestPath editionId = editionId @ ''/manifest.json''"

text \<open>
  \<open>path.join\<close> on a directory and one plain segment: the two joined by a separator
  (no segment here contains \<open>..\<close> or a separator of its own).
\<close>

definition path_join :: "string \<Rightarrow> string \<Rightarrow> string" where
  "path_join dir seg = dir @ ''/'' @ seg"

section \<open>Data model\<close>

text \<open>
  A thrown JavaScript value: an \<open>Error\<close> instance with its message, or any other
  value with its \<open>String(...)\<close> rendering.
\<close>

datatype thrown = JsError string | NonError string

text \<open>A property that may be \<open>undefined\<close>, \<open>null\<close> or hold a value.\<close>

datatype 'a nullable = Undefined | Null | Val 'a

type_synonym buffer = string

text \<open>An element of \<open>VARIANTS\<close>, and \<open>THUMBNAIL_VARIANT\<close>: \<open>{ key, width, height?, quality }\<close>.\<close>

record variant_spec =
  key :: string
  width :: nat
  height :: "nat option"
  quality :: nat

definition VARIANTS :: "variant_spec list" where
  "VARIANTS =
     [\<lparr>key = ''low'', width = 900, height = None, quality = 72\<rparr>,
      \<lparr>key = ''medium'', width = 1400, height = None, quality = 80\<rparr>,
      \<lparr>key = ''high'', width = 2400, height = None, quality = 90\<rparr>]"

definition THUMBNAIL_VARIANT :: variant_spec where
  "THUMBNAIL_VARIANT = \<lparr>key = ''thumbnail'', width = 360, height = None, quality = 60\<rparr>"

text \<open>What \<open>image.metadata()\<close> reports of a page: either dimension may be missing.\<close>

record metadata =
  md_width :: "nat option"
  md_height :: "nat option"

text \<open>The argument of \<open>transformer.resize\<close> in its two shapes (lines 85-91).\<close>

datatype resize_options =
    CoverFit nat nat     \<comment> \<open>\<open>{ width, height, fit: 'cover' }\<close>\<close>
  | WidthOnly nat        \<comment> \<open>\<open>{ width, withoutEnlargement: true }\<close>\<close>

record asset =
  path :: string
  publicUrl :: string

text \<open>An element of \<open>manifestPages\<close>; \<open>assets\<close> is the object \<open>variantUploads\<close>.\<close>

record page_entry =
  pageNumber :: nat
  page_width :: "nat nullable"
  page_height :: "nat nullable"
  assets :: "string \<rightharpoonup> asset"

text \<open>An element of \<open>manifest.pages\<close> (lines 207-215).\<close>

record manifest_page =
  mp_pageNumber :: nat
  mp_width :: "nat nullable"
  mp_height :: "nat nullable"
  lowResImagePath :: "string nullable"
  mediumImagePath :: "string nullable"
  highResImagePath :: "string nullable"
  thumbnailPath :: "string nullable"

record manifest =
  edition_id :: string
  edition_totalPages :: nat
  assetsBaseUrl :: string
  manifest_bucket :: string
  generatedAt :: string
  manifest_pages :: "manifest_page list"

text \<open>The bytes handed to \<open>uploadBuffer\<close>: an encoded image, or the serialised manifest.\<close>

datatype upload_body = ImageBytes buffer | ManifestJson manifest

text \<open>The JSON of the success response (lines 223-231).\<close>

record success_body =
  res_editionId :: string
  res_bucket :: string
  res_manifestPath :: string
  res_totalPages :: nat
  res_pages :: "page_entry list"
  res_uploads :: "string list"

text \<open>
  A response body: \<open>Failure msg\<close> is \<open>{ success: false, error: msg }\<close>, \<open>Success b\<close> is
  \<open>{ success: true, ... }\<close>.
\<close>

datatype response_body = Failure string | Success success_body

record response =
  status :: nat
  body :: response_body

fun success :: "response_body \<Rightarrow> bool" where
  "success (Failure msg) = False"
| "success (Success b) = True"

text \<open>
  The request as the handler reads it: the \<open>x-api-key\<close> header and the fields of
  \<open>req.body\<close>; \<open>None\<close> is a missing (undefined) field.
\<close>

record request =
  x_api_key :: "string option"
  body_editionId :: "string option"
  body_pdfUrl :: "string option"
  body_supabaseUrl :: "string option"
  body_supabaseKey :: "string option"
  body_bucket :: "string option"
  body_variants :: "variant_spec list option"
  body_thumbnail :: "variant_spec option"

text \<open>The module constants read from the environment (lines 22-23).\<close>

record config =
  DEFAULT_BUCKET :: string
  SERVICE_SECRET :: string

section \<open>The outside world\<close>

text \<open>
  Every call that leaves the process (network, filesystem, subprocess, image library) is
  recorded, in order, with what it was asked to do; a storage upload also records
  whether the storage accepted it.
\<close>

datatype call =
    CreateClient string string
  | Mkdtemp string
  | Mkdir string
  | HttpGet string string
  | ExecFile string "string list"
  | Readdir string
  | ReadFile string
  | SharpMetadata
  | SharpRender resize_options nat
  | StorageUpload string string bool
  | Rm string

text \<open>
  How the collaborators answer. Each answer may depend on the calls made so far, so that
  a collaborator can fail the second time it is asked the same thing.
\<close>

record world =
  tmpdir :: string
  uuid :: "call list \<Rightarrow> string"
  now_iso :: "call list \<Rightarrow> string"
  createClient :: "call list \<Rightarrow> string \<Rightarrow> string \<Rightarrow> thrown option"
  mkdtemp :: "call list \<Rightarrow> string \<Rightarrow> thrown + string"
  mkdir :: "call list \<Rightarrow> string \<Rightarrow> thrown option"
  axios_get :: "call list \<Rightarrow> string \<Rightarrow> string \<Rightarrow> thrown option"
  execFile :: "call list \<Rightarrow> string \<Rightarrow> string list \<Rightarrow> thrown option"
  readdir :: "call list \<Rightarrow> string \<Rightarrow> thrown + string list"
  readFile :: "call list \<Rightarrow> string \<Rightarrow> thrown + buffer"
  sharp_metadata :: "call list \<Rightarrow> buffer \<Rightarrow> thrown + metadata"
  sharp_toBuffer :: "call list \<Rightarrow> buffer \<Rightarrow> resize_options \<Rightarrow> nat \<Rightarrow> thrown + buffer"
  storage_upload :: "call list \<Rightarrow> string \<Rightarrow> string \<Rightarrow> upload_body \<Rightarrow> string option"
  storage_publicUrl :: "string \<Rightarrow> string \<Rightarrow> string"
  rm :: "call list \<Rightarrow> string \<Rightarrow> thrown option"

text \<open>
  The state the service acts on: the directories it has created and not removed, the
  objects in the storage buckets (bucket and path to content), and the calls made.
\<close>

record sys_state =
  dirs :: "string list"
  objects :: "string \<times> string \<rightharpoonup> upload_body"
  calls :: "call list"

definition log_call :: "call \<Rightarrow> sys_state \<Rightarrow> sys_state" where
  "log_call c s = s\<lparr>calls := calls s @ [c]\<rparr>"

definition under :: "string \<Rightarrow> string \<Rightarrow> bool" where
  "under dirPath d = (d = dirPath \<or> startsWith d (dirPath @ ''/''))"

section \<open>Helpers of the handler\<close>

text \<open>\<open>createTempDir\<close> (lines 41-44): \<open>fsp.mkdtemp(path.join(os.tmpdir(), 'pdf-conversion-'))\<close>.\<close>

definition createTempDir :: "world \<Rightarrow> sys_state \<Rightarrow> (thrown + string) \<times> sys_state" where
  "createTempDir w s =
     (let pre = path_join (tmpdir w) ''pdf-conversion-'' in
      case mkdtemp w (calls s) pre of
        Inl e \<Rightarrow> (Inl e, log_call (Mkdtemp pre) s)
      | Inr dir \<Rightarrow> (Inr dir, (log_call (Mkdtemp pre) s)\<lparr>dirs := dir # dirs s\<rparr>))"

text \<open>
  \<open>removeDirSafe\<close> (lines 46-53): nothing for a falsy path; otherwise a recursive, forced
  \<open>rm\<close> whose failure is caught and only logged.
\<close>

definition removeDirSafe :: "world \<Rightarrow> string \<Rightarrow> sys_state \<Rightarrow> sys_state" where
  "removeDirSafe w dirPath s =
     (if dirPath = [] then s
      else case rm w (calls s) dirPath of
        None \<Rightarrow> (log_call (Rm dirPath) s)\<lparr>dirs := filter (\<lambda>d. \<not> under dirPath d) (dirs s)\<rparr>
      | Some e \<Rightarrow> log_call (Rm dirPath) s)"

text \<open>\<open>fsp.mkdir(pngDir, { recursive: true })\<close> (line 144).\<close>

definition mkdir_p :: "world \<Rightarrow> string \<Rightarrow> sys_state \<Rightarrow> (thrown + unit) \<times> sys_state" where
  "mkdir_p w dir s =
     (case mkdir w (calls s) dir of
        Some e \<Rightarrow> (Inl e, log_call (Mkdir dir) s)
      | None \<Rightarrow> (Inr (), (log_call (Mkdir dir) s)\<lparr>dirs := dirs s @ [dir]\<rparr>))"

text \<open>\<open>downloadPdf\<close> (lines 74-77): the GET and the streaming into the file, as one call.\<close>

definition downloadPdf :: "world \<Rightarrow> string \<Rightarrow> string \<Rightarrow> sys_state \<Rightarrow> (thrown + unit) \<times> sys_state" where
  "downloadPdf w pdfUrl destinationPath s =
     (case axios_get w (calls s) pdfUrl destinationPath of
        Some e \<Rightarrow> (Inl e, log_call (HttpGet pdfUrl destinationPath) s)
      | None \<Rightarrow> (Inr (), log_call (HttpGet pdfUrl destinationPath) s))"

section \<open>Rasterizer adapter\<close>

text \<open>
  The sort key of lines 67-68: \<open>parseInt(a.match(/(\d+)\.png$/)?.[1] ?? '0', 10)\<close>.
  The pattern is anchored at the end, so its first group is the longest run of decimal
  digits that stands right before a final \<open>.png\<close>; there is no match when the name
  does not end in \<open>.png\<close> or no digit stands there.

  \<open>parseInt\<close> of a digit string is a JavaScript number: the double nearest to the
  decimal value, ties to even (\<open>to_double\<close>). It is the decimal value itself below
  \<open>2^53\<close>. Beyond the largest double it is \<open>Infinity\<close>, written \<open>2^1024\<close> here:
  the comparator's \<open>Infinity - Infinity\<close> is \<open>NaN\<close>, which the sort takes as 0, so
  two infinite keys tie as two equal keys do. The difference of two doubles has the sign
  of their comparison, so sorting with \<open>pageA - pageB\<close> is sorting by this key.
\<close>

definition is_digit :: "char \<Rightarrow> bool" where
  "is_digit c = (c \<in> set ''0123456789'')"

definition digit_val :: "char \<Rightarrow> nat" where
  "digit_val c = of_char c - 48"

definition match_page_digits :: "string \<Rightarrow> string option" where
  "match_page_digits a =
     (if endsWith a ''.png'' then
        (let ds = rev (takeWhile is_digit (rev (take (length a - 4) a)))
         in if ds = [] then None else Some ds)
      else None)"

definition decimal_value :: "string \<Rightarrow> nat" where
  "decimal_value ds = foldl (\<lambda>acc c. 10 * acc + digit_val c) 0 ds"

fun bit_len :: "nat \<Rightarrow> nat" where
  "bit_len n = (if n = 0 then 0 else Suc (bit_len (n div 2)))"

declare bit_len.simps [simp del]

definition to_double :: "nat \<Rightarrow> nat" where
  "to_double n =
     (if n < 2 ^ 53 then n
      else
        (let e = bit_len n - 53;
             q = n div 2 ^ e;
             r = n mod 2 ^ e;
             half = 2 ^ (e - 1);
             m = (if half < r \<or> (r = half \<and> odd q) then q + 1 else q)
         in if 2 ^ 1024 \<le> m * 2 ^ e then 2 ^ 1024 else m * 2 ^ e))"

definition parseInt10 :: "string \<Rightarrow> nat" where
  "parseInt10 ds = to_double (decimal_value ds)"

definition page_index :: "string \<Rightarrow> nat" where
  "page_index a = parseInt10 (case match_page_digits a of Some ds \<Rightarrow> ds | None \<Rightarrow> ''0'')"

text \<open>The filter of line 65: \<open>file.startsWith('page') && file.endsWith('.png')\<close>.\<close>

definition is_page_file :: "string \<Rightarrow> bool" where
  "is_page_file file = (startsWith file ''page'' \<and> endsWith file ''.png'')"

text \<open>
  \<open>convertPdfToPng\<close> (lines 55-72). \<open>Array.prototype.sort\<close> with the comparator
  \<open>pageA - pageB\<close> is a stable sort by that key, which is what \<open>sort_key\<close> is.
\<close>

definition convertPdfToPng ::
  "world \<Rightarrow> string \<Rightarrow> string \<Rightarrow> nat \<Rightarrow> sys_state \<Rightarrow> (thrown + string list) \<times> sys_state" where
  "convertPdfToPng w pdfPath outputDir dpi s =
     (let prefix = path_join outputDir ''page'';
          args = [''-png'', ''-r'', String_of dpi, pdfPath, prefix];
          s1 = log_call (ExecFile ''pdftoppm'' args) s
      in case execFile w (calls s) ''pdftoppm'' args of
           Some err \<Rightarrow>
             (Inl (JsError (''pdftoppm failed: '' @
                (case err of JsError m \<Rightarrow> m | NonError str \<Rightarrow> str))), s1)
         | None \<Rightarrow>
             (case readdir w (calls s1) outputDir of
                Inl e \<Rightarrow> (Inl e, log_call (Readdir outputDir) s1)
              | Inr files \<Rightarrow>
                  (Inr (map (path_join outputDir)
                     (sort_key page_index (filter is_page_file files))),
                   log_call (Readdir outputDir) s1)))"

section \<open>Variant renderer\<close>

text \<open>
  \<open>cloneSharpForVariant\<close> (lines 79-95). \<open>targetWidth\<close> and \<open>resize_for\<close> are its
  lines 80-81 and 84-92; \<open>if (config.height)\<close> holds for a height that is present and
  not zero.
\<close>

definition targetWidth :: "metadata \<Rightarrow> variant_spec \<Rightarrow> nat" where
  "targetWidth md config =
     (let maxWidth = (case md_width md of Some mw \<Rightarrow> mw | None \<Rightarrow> width config)
      in min (width config) maxWidth)"

definition resize_for :: "metadata \<Rightarrow> variant_spec \<Rightarrow> resize_options" where
  "resize_for md config =
     (case height config of
        Some h \<Rightarrow> (if h \<noteq> 0 then CoverFit (targetWidth md config) h
                   else WidthOnly (targetWidth md config))
      | None \<Rightarrow> WidthOnly (targetWidth md config))"

text \<open>
  Modelled from the spec: the resize of the image library, which is not part of the
  sources. The specification describes it (section 4.2): with a height, a cover fit
  that fills exactly width by height; without one, a proportional resize to the target
  width that does not enlarge beyond the natural size. \<open>rendered_width nw opts\<close> is the
  width of the image rendered with \<open>opts\<close> from a page of natural width \<open>nw\<close>.
\<close>

definition rendered_width :: "nat \<Rightarrow> resize_options \<Rightarrow> nat" where
  "rendered_width nw opts =
     (case opts of CoverFit w h \<Rightarrow> w | WidthOnly w \<Rightarrow> min w nw)"

definition cloneSharpForVariant ::
  "world \<Rightarrow> buffer \<Rightarrow> metadata \<Rightarrow> variant_spec \<Rightarrow> sys_state \<Rightarrow> (thrown + buffer) \<times> sys_state" where
  "cloneSharpForVariant w input md config s =
     (let transformer = resize_for md config;
          s1 = log_call (SharpRender transformer (quality config)) s
      in case sharp_toBuffer w (calls s) input transformer (quality config) of
           Inl e \<Rightarrow> (Inl e, s1)
         | Inr buf \<Rightarrow> (Inr buf, s1))"

section \<open>Asset publisher\<close>

text \<open>
  \<open>uploadBuffer\<close> (lines 97-108): an upsert; an \<open>error\<close> in the storage's answer is
  thrown with the path and the storage's message.
\<close>

definition uploadBuffer ::
  "world \<Rightarrow> string \<Rightarrow> string \<Rightarrow> upload_body \<Rightarrow> sys_state \<Rightarrow> (thrown + unit) \<times> sys_state" where
  "uploadBuffer w bucket storagePath buffer s =
     (case storage_upload w (calls s) bucket storagePath buffer of
        Some msg \<Rightarrow>
          (Inl (JsError (''Failed to upload '' @ storagePath @ '': '' @ msg)),
           log_call (StorageUpload bucket storagePath False) s)
      | None \<Rightarrow>
          (Inr (),
           (log_call (StorageUpload bucket storagePath True) s)
             \<lparr>objects := (objects s)((bucket, storagePath) \<mapsto> buffer)\<rparr>))"

definition getPublicUrl :: "world \<Rightarrow> string \<Rightarrow> string \<Rightarrow> string" where
  "getPublicUrl w bucket storagePath = storage_publicUrl w bucket storagePath"

section \<open>Pipeline orchestrator\<close>

definition read_file :: "world \<Rightarrow> string \<Rightarrow> sys_state \<Rightarrow> (thrown + buffer) \<times> sys_state" where
  "read_file w pngPath s =
     (case readFile w (calls s) pngPath of
        Inl e \<Rightarrow> (Inl e, log_call (ReadFile pngPath) s)
      | Inr buf \<Rightarrow> (Inr buf, log_call (ReadFile pngPath) s))"

definition image_metadata :: "world \<Rightarrow> buffer \<Rightarrow> sys_state \<Rightarrow> (thrown + metadata) \<times> sys_state" where
  "image_metadata w pngBuffer s =
     (case sharp_metadata w (calls s) pngBuffer of
        Inl e \<Rightarrow> (Inl e, log_call SharpMetadata s)
      | Inr md \<Rightarrow> (Inr md, log_call SharpMetadata s))"

definition or_null :: "'a option \<Rightarrow> 'a nullable" where
  "or_null v = (case v of Some x \<Rightarrow> Val x | None \<Rightarrow> Null)"

text \<open>
  The loop over \<open>variants\<close> (lines 167-178), with \<open>variantUploads\<close> and \<open>uploads\<close>
  passed along. A throw leaves the loop at once.
\<close>

fun variants_loop ::
  "world \<Rightarrow> string \<Rightarrow> string \<Rightarrow> nat \<Rightarrow> buffer \<Rightarrow> metadata \<Rightarrow> variant_spec list \<Rightarrow>
   (string \<rightharpoonup> asset) \<times> string list \<Rightarrow> sys_state \<Rightarrow>
   (thrown + (string \<rightharpoonup> asset) \<times> string list) \<times> sys_state" where
  "variants_loop w editionId bucket pageNo pngBuffer md [] acc s = (Inr acc, s)"
| "variants_loop w editionId bucket pageNo pngBuffer md (variant # rest) (variantUploads, uploads) s =
     (case cloneSharpForVariant w pngBuffer md variant s of
        (Inl e, s1) \<Rightarrow> (Inl e, s1)
      | (Inr buffer, s1) \<Rightarrow>
          (let storagePath = buildStoragePath editionId (key variant) pageNo in
           case uploadBuffer w bucket storagePath (ImageBytes buffer) s1 of
             (Inl e, s2) \<Rightarrow> (Inl e, s2)
           | (Inr u, s2) \<Rightarrow>
               (let publicUrl = getPublicUrl w bucket storagePath in
                variants_loop w editionId bucket pageNo pngBuffer md rest
                  (variantUploads(key variant \<mapsto> \<lparr>path = storagePath, publicUrl = publicUrl\<rparr>),
                   uploads @ [storagePath]) s2)))"

text \<open>
  The body of the page loop (lines 159-196) for the page file \<open>pngPath = pngPages[index]\<close>:
  it returns the entry pushed on \<open>manifestPages\<close> and the extended \<open>uploads\<close>.
\<close>

definition page_body ::
  "world \<Rightarrow> string \<Rightarrow> string \<Rightarrow> variant_spec list \<Rightarrow> variant_spec \<Rightarrow> string \<Rightarrow> nat \<Rightarrow>
   string list \<Rightarrow> sys_state \<Rightarrow> (thrown + page_entry \<times> string list) \<times> sys_state" where
  "page_body w editionId bucket variants thumbnail pngPath index uploads s =
     (let pageNo = index + 1 in
      case read_file w pngPath s of
        (Inl e, s1) \<Rightarrow> (Inl e, s1)
      | (Inr pngBuffer, s1) \<Rightarrow>
      (case image_metadata w pngBuffer s1 of
        (Inl e, s2) \<Rightarrow> (Inl e, s2)
      | (Inr md, s2) \<Rightarrow>
      (case variants_loop w editionId bucket pageNo pngBuffer md variants (Map.empty, uploads) s2 of
        (Inl e, s3) \<Rightarrow> (Inl e, s3)
      | (Inr (variantUploads, uploads1), s3) \<Rightarrow>
      (case cloneSharpForVariant w pngBuffer md thumbnail s3 of
        (Inl e, s4) \<Rightarrow> (Inl e, s4)
      | (Inr thumbBuffer, s4) \<Rightarrow>
      (let thumbPath = thumbStoragePath editionId (key thumbnail) pageNo in
       case uploadBuffer w bucket thumbPath (ImageBytes thumbBuffer) s4 of
         (Inl e, s5) \<Rightarrow> (Inl e, s5)
       | (Inr u, s5) \<Rightarrow>
           (let thumbnailPublicUrl = getPublicUrl w bucket thumbPath in
            (Inr (\<lparr>pageNumber = pageNo,
                    page_width = or_null (md_width md),
                    page_height = or_null (md_height md),
                    assets = variantUploads(key thumbnail \<mapsto>
                      \<lparr>path = thumbPath, publicUrl = thumbnailPublicUrl\<rparr>)\<rparr>,
                  uploads1 @ [thumbPath]), s5)))))))"

text \<open>
  The page loop (lines 158-197). The list argument is what is left of \<open>pngPages\<close> from
  position \<open>index\<close> on.
\<close>

fun pages_loop ::
  "world \<Rightarrow> string \<Rightarrow> string \<Rightarrow> variant_spec list \<Rightarrow> variant_spec \<Rightarrow> string list \<Rightarrow> nat \<Rightarrow>
   page_entry list \<times> string list \<Rightarrow> sys_state \<Rightarrow>
   (thrown + page_entry list \<times> string list) \<times> sys_state" where
  "pages_loop w editionId bucket variants thumbnail [] index acc s = (Inr acc, s)"
| "pages_loop w editionId bucket variants thumbnail (pngPath # rest) index (manifestPages, uploads) s =
     (case page_body w editionId bucket variants thumbnail pngPath index uploads s of
        (Inl e, s1) \<Rightarrow> (Inl e, s1)
      | (Inr (entry, uploads1), s1) \<Rightarrow>
          pages_loop w editionId bucket variants thumbnail rest (index + 1)
            (manifestPages @ [entry], uploads1) s1)"

section \<open>Manifest builder\<close>

text \<open>\<open>x?.path\<close> on a property that may be missing, and \<open>a ?? b\<close>.\<close>

definition opt_path :: "asset option \<Rightarrow> string nullable" where
  "opt_path a = (case a of None \<Rightarrow> Undefined | Some x \<Rightarrow> Val (path x))"

definition nullish :: "'a nullable \<Rightarrow> 'a nullable \<Rightarrow> 'a nullable" where
  "nullish a b = (case a of Undefined \<Rightarrow> b | Null \<Rightarrow> b | Val v \<Rightarrow> Val v)"

text \<open>The mapping of \<open>manifestPages\<close> to \<open>manifest.pages\<close> (lines 207-215).\<close>

definition manifest_page_of :: "string \<Rightarrow> page_entry \<Rightarrow> manifest_page" where
  "manifest_page_of thumbnailKey page =
     \<lparr>mp_pageNumber = pageNumber page,
      mp_width = page_width page,
      mp_height = page_height page,
      lowResImagePath =
        nullish (opt_path (assets page ''low'')) (opt_path (assets page ''medium'')),
      mediumImagePath = nullish (opt_path (assets page ''medium'')) Null,
      highResImagePath = nullish (opt_path (assets page ''high'')) Null,
      thumbnailPath =
        nullish (opt_path (assets page thumbnailKey))
          (nullish (opt_path (assets page ''low'')) Null)\<rparr>"

text \<open>The object \<open>manifest\<close> (lines 199-216); \<open>now\<close> is \<open>new Date().toISOString()\<close>.\<close>

definition build_manifest ::
  "string \<Rightarrow> string \<Rightarrow> string \<Rightarrow> variant_spec \<Rightarrow> string \<Rightarrow> page_entry list \<Rightarrow> manifest" where
  "build_manifest editionId bucketBaseUrl bucket thumbnail now manifestPages =
     \<lparr>edition_id = editionId,
      edition_totalPages = length manifestPages,
      assetsBaseUrl = bucketBaseUrl,
      manifest_bucket = bucket,
      generatedAt = now,
      manifest_pages = map (manifest_page_of (key thumbnail)) manifestPages\<rparr>"

section \<open>The handler of POST /convert\<close>

definition falsy :: "string option \<Rightarrow> bool" where
  "falsy v = (case v of None \<Rightarrow> True | Some x \<Rightarrow> x = [])"

definition str_of :: "string option \<Rightarrow> string" where
  "str_of v = (case v of None \<Rightarrow> [] | Some x \<Rightarrow> x)"

definition new_client :: "world \<Rightarrow> string \<Rightarrow> string \<Rightarrow> sys_state \<Rightarrow> (thrown + unit) \<times> sys_state" where
  "new_client w supabaseUrl supabaseKey s =
     (case createClient w (calls s) supabaseUrl supabaseKey of
        Some e \<Rightarrow> (Inl e, log_call (CreateClient supabaseUrl supabaseKey) s)
      | None \<Rightarrow> (Inr (), log_call (CreateClient supabaseUrl supabaseKey) s))"

text \<open>
  Lines 137-148: the storage client, the temporary directory, the download and the
  rasterization. It returns \<open>tempRoot\<close> and \<open>pngPages\<close>.
\<close>

definition acquire_pages ::
  "world \<Rightarrow> string \<Rightarrow> string \<Rightarrow> string \<Rightarrow> sys_state \<Rightarrow> (thrown + string \<times> string list) \<times> sys_state" where
  "acquire_pages w pdfUrl supabaseUrl supabaseKey s =
     (case new_client w supabaseUrl supabaseKey s of
        (Inl e, s0) \<Rightarrow> (Inl e, s0)
      | (Inr u, s0) \<Rightarrow>
      (case createTempDir w s0 of
        (Inl e, s1) \<Rightarrow> (Inl e, s1)
      | (Inr tempRoot, s1) \<Rightarrow>
      (let pdfPath = path_join tempRoot (uuid w (calls s1) @ ''.pdf'');
           pngDir = path_join tempRoot ''png'' in
       case mkdir_p w pngDir s1 of
         (Inl e, s2) \<Rightarrow> (Inl e, s2)
       | (Inr u, s2) \<Rightarrow>
       (case downloadPdf w pdfUrl pdfPath s2 of
         (Inl e, s3) \<Rightarrow> (Inl e, s3)
       | (Inr u, s3) \<Rightarrow>
       (case convertPdfToPng w pdfPath pngDir 300 s3 of
         (Inl e, s4) \<Rightarrow> (Inl e, s4)
       | (Inr pngPages, s4) \<Rightarrow> (Inr (tempRoot, pngPages), s4))))))"

text \<open>
  Lines 149-231: the zero-page check, the page loop, the manifest and its upload, the
  removal of the temporary directory and the success response.
\<close>

definition publish_pages ::
  "world \<Rightarrow> string \<Rightarrow> string \<Rightarrow> string \<Rightarrow> variant_spec list \<Rightarrow> variant_spec \<Rightarrow> string \<Rightarrow>
   string list \<Rightarrow> sys_state \<Rightarrow> (thrown + response) \<times> sys_state" where
  "publish_pages w editionId supabaseUrl bucket variants thumbnail tempRoot pngPages s =
     (if length pngPages = 0 then
        (Inl (JsError ''No pages produced during PDF conversion''), s)
      else
        (let bucketBaseUrl =
               ensureTrailingSlash (supabaseUrl @ ''/storage/v1/object/public/'' @ bucket) in
         case pages_loop w editionId bucket variants thumbnail pngPages 0 ([], []) s of
           (Inl e, s1) \<Rightarrow> (Inl e, s1)
         | (Inr (manifestPages, uploads), s1) \<Rightarrow>
             (let man = build_manifest editionId bucketBaseUrl bucket thumbnail
                          (now_iso w (calls s1)) manifestPages;
                  mPath = manifestPath editionId in
              case uploadBuffer w bucket mPath (ManifestJson man) s1 of
                (Inl e, s2) \<Rightarrow> (Inl e, s2)
              | (Inr u, s2) \<Rightarrow>
                  (let s3 = removeDirSafe w tempRoot s2 in
                   (Inr \<lparr>status = 200,
                         body = Success
                           \<lparr>res_editionId = editionId,
                            res_bucket = bucket,
                            res_manifestPath = mPath,
                            res_totalPages = length (manifest_pages man),
                            res_pages = manifestPages,
                            res_uploads = uploads\<rparr>\<rparr>, s3)))))"

text \<open>The effective settings of a request: body fields with their defaults (lines 125-127).\<close>

definition req_bucket :: "config \<Rightarrow> request \<Rightarrow> string" where
  "req_bucket cfg req = (case body_bucket req of Some b \<Rightarrow> b | None \<Rightarrow> DEFAULT_BUCKET cfg)"

definition req_variants :: "request \<Rightarrow> variant_spec list" where
  "req_variants req = (case body_variants req of Some vs \<Rightarrow> vs | None \<Rightarrow> VARIANTS)"

definition req_thumbnail :: "request \<Rightarrow> variant_spec" where
  "req_thumbnail req = (case body_thumbnail req of Some t \<Rightarrow> t | None \<Rightarrow> THUMBNAIL_VARIANT)"

text \<open>The \<open>try\<close> block (lines 115-231): \<open>Inr\<close> is a returned response, \<open>Inl\<close> a throw.\<close>

definition convert_try ::
  "config \<Rightarrow> world \<Rightarrow> request \<Rightarrow> sys_state \<Rightarrow> (thrown + response) \<times> sys_state" where
  "convert_try cfg w req s =
     (let requestSecret =
            (case x_api_key req of Some h \<Rightarrow> (if h = [] then [] else h) | None \<Rightarrow> [])
      in
      if SERVICE_SECRET cfg \<noteq> [] \<and> requestSecret \<noteq> SERVICE_SECRET cfg then
        (Inr \<lparr>status = 401, body = Failure ''Unauthorized''\<rparr>, s)
      else
        (let editionId = body_editionId req;
             pdfUrl = body_pdfUrl req;
             supabaseUrl = body_supabaseUrl req;
             supabaseKey = body_supabaseKey req;
             bucket = req_bucket cfg req;
             variants = req_variants req;
             thumbnail = req_thumbnail req
         in
         if falsy editionId \<or> falsy pdfUrl \<or> falsy supabaseUrl \<or> falsy supabaseKey then
           (Inr \<lparr>status = 400,
                 body = Failure
                   ''Missing required parameters (editionId, pdfUrl, supabaseUrl, supabaseKey)''\<rparr>,
            s)
         else
           (case acquire_pages w (str_of pdfUrl) (str_of supabaseUrl) (str_of supabaseKey) s of
              (Inl e, s1) \<Rightarrow> (Inl e, s1)
            | (Inr (tempRoot, pngPages), s1) \<Rightarrow>
                publish_pages w (str_of editionId) (str_of supabaseUrl) bucket variants thumbnail
                  tempRoot pngPages s1)))"

text \<open>
  The handler with its \<open>catch\<close> (lines 232-238): a thrown \<open>Error\<close> gives its message,
  any other thrown value \<open>'Unknown error'\<close>, under status 500.
\<close>

definition convert :: "config \<Rightarrow> world \<Rightarrow> request \<Rightarrow> sys_state \<Rightarrow> response \<times> sys_state" where
  "convert cfg w req s =
     (case convert_try cfg w req s of
        (Inr res, s1) \<Rightarrow> (res, s1)
      | (Inl err, s1) \<Rightarrow>
          (\<lparr>status = 500,
            body = Failure (case err of JsError m \<Rightarrow> m | NonError str \<Rightarrow> ''Unknown error'')\<rparr>,
           s1))"

section \<open>Reading the record of calls\<close>

text \<open>The storage uploads among a list of calls (bucket, path, accepted), in order.\<close>

fun upload_calls :: "call list \<Rightarrow> (string \<times> string \<times> bool) list" where
  "upload_calls [] = []"
| "upload_calls (StorageUpload b p ok # cs) = (b, p, ok) # upload_calls cs"
| "upload_calls (c # cs) = upload_calls cs"

text \<open>The encodings asked of the image library among a list of calls, in order.\<close>

fun render_calls :: "call list \<Rightarrow> (resize_options \<times> nat) list" where
  "render_calls [] = []"
| "render_calls (SharpRender opts q # cs) = (opts, q) # render_calls cs"
| "render_calls (c # cs) = render_calls cs"

text \<open>The page files read among a list of calls, in order.\<close>

fun read_calls :: "call list \<Rightarrow> string list" where
  "read_calls [] = []"
| "read_calls (ReadFile p # cs) = p # read_calls cs"
| "read_calls (c # cs) = read_calls cs"

text \<open>The uploads made between an earlier state and a later one.\<close>

definition uploads_during :: "sys_state \<Rightarrow> sys_state \<Rightarrow> (string \<times> string \<times> bool) list" where
  "uploads_during s s' = drop (length (upload_calls (calls s))) (upload_calls (calls s'))"

section \<open>The specification's wording\<close>

text \<open>
  The storage path convention as the specification writes it: the page number in
  decimal, filled with zeros on the left up to three digits.
\<close>

definition zero_padded3 :: "nat \<Rightarrow> string" where
  "zero_padded3 n = replicate (3 - length (String_of n)) (CHR ''0'') @ String_of n"

definition spec_storagePath :: "string \<Rightarrow> string \<Rightarrow> nat \<Rightarrow> string" where
  "spec_storagePath editionId variantKey pageNo =
     editionId @ ''/pages/'' @ variantKey @ ''/'' @ zero_padded3 pageNo @ ''.webp''"

text \<open>
  The paths of a whole edition of \<open>P\<close> pages: page by page from 1, and within a page
  the configured variants in order, then the thumbnail.
\<close>

definition spec_uploads :: "string \<Rightarrow> string list \<Rightarrow> string \<Rightarrow> nat \<Rightarrow> string list" where
  "spec_uploads editionId variantKeys thumbnailKey P =
     concat (map (\<lambda>n. map (\<lambda>k. spec_storagePath editionId k n) (variantKeys @ [thumbnailKey]))
       [1..<Suc P])"

text \<open>
  The fallback rule of the manifest's summary fields as the specification writes it,
  field by field, over the asset map of a page.
\<close>

definition spec_lowRes :: "(string \<rightharpoonup> asset) \<Rightarrow> string nullable" where
  "spec_lowRes m =
     (case m ''low'' of Some a \<Rightarrow> Val (path a)
      | None \<Rightarrow> (case m ''medium'' of Some a \<Rightarrow> Val (path a) | None \<Rightarrow> Undefined))"

definition spec_medium :: "(string \<rightharpoonup> asset) \<Rightarrow> string nullable" where
  "spec_medium m = (case m ''medium'' of Some a \<Rightarrow> Val (path a) | None \<Rightarrow> Null)"

definition spec_highRes :: "(string \<rightharpoonup> asset) \<Rightarrow> string nullable" where
  "spec_highRes m = (case m ''high'' of Some a \<Rightarrow> Val (path a) | None \<Rightarrow> Null)"

definition spec_thumbnail :: "string \<Rightarrow> (string \<rightharpoonup> asset) \<Rightarrow> string nullable" where
  "spec_thumbnail thumbnailKey m =
     (case m thumbnailKey of Some a \<Rightarrow> Val (path a)
      | None \<Rightarrow> (case m ''low'' of Some a \<Rightarrow> Val (path a) | None \<Rightarrow> Null))"

definition spec_manifest_page :: "string \<Rightarrow> page_entry \<Rightarrow> manifest_page" where
  "spec_manifest_page thumbnailKey page =
     \<lparr>mp_pageNumber = pageNumber page,
      mp_width = page_width page,
      mp_height = page_height page,
      lowResImagePath = spec_lowRes (assets page),
      mediumImagePath = spec_medium (assets page),
      highResImagePath = spec_highRes (assets page),
      thumbnailPath = spec_thumbnail thumbnailKey (assets page)\<rparr>"

section \<open>Classes of requests\<close>

text \<open>
  A request passes the shared-secret check of lines 115-118 when no secret is configured
  or its header carries the secret.
\<close>

definition authorized :: "config \<Rightarrow> request \<Rightarrow> bool" where
  "authorized cfg req = (SERVICE_SECRET cfg = [] \<or> x_api_key req = Some (SERVICE_SECRET cfg))"

text \<open>The condition of line 130: one of the four required fields is missing or empty.\<close>

definition missing_field :: "request \<Rightarrow> bool" where
  "missing_field req =
     (falsy (body_editionId req) \<or> falsy (body_pdfUrl req) \<or>
      falsy (body_supabaseUrl req) \<or> falsy (body_supabaseKey req))"

section \<open>Auxiliary notions for the proofs\<close>

text \<open>
  Between \<open>s\<close> and \<open>s'\<close> every upload went to a path other than the manifest's, the
  manifest objects of the edition are as they were, and so are the directories.
\<close>

definition only_assets :: "string \<Rightarrow> sys_state \<Rightarrow> sys_state \<Rightarrow> bool" where
  "only_assets e s s' =
     (\<exists>X. upload_calls (calls s') = upload_calls (calls s) @ X \<and>
          list_all (\<lambda>u. fst (snd u) \<noteq> manifestPath e) X \<and>
          (\<forall>b. objects s' (b, manifestPath e) = objects s (b, manifestPath e)) \<and>
          dirs s' = dirs s)"

text \<open>
  The paths pushed on \<open>uploads\<close> by \<open>count\<close> rounds of the page loop started at
  position \<open>index\<close>.
\<close>

definition loop_paths :: "string \<Rightarrow> variant_spec list \<Rightarrow> variant_spec \<Rightarrow> nat \<Rightarrow> nat \<Rightarrow> string list" where
  "loop_paths e vs th index count =
     concat (map (\<lambda>n. map (\<lambda>k. buildStoragePath e k n) (map key vs @ [key th]))
       [Suc index..<Suc (index + count)])"

section \<open>Concrete worlds and requests\<close>

text \<open>
  A world in which every collaborator succeeds: the output directory lists \<open>files\<close>, a
  page file's content is its own path, every page is 2480 by 3508 pixels and the image
  library returns its input.
\<close>

definition ok_world :: "string list \<Rightarrow> world" where
  "ok_world files =
     \<lparr>tmpdir = ''/tmp'',
      uuid = (\<lambda>h. ''u1''),
      now_iso = (\<lambda>h. ''2024-01-01T00:00:00.000Z''),
      createClient = (\<lambda>h url k. None),
      mkdtemp = (\<lambda>h pre. Inr (pre @ ''abc123'')),
      mkdir = (\<lambda>h d. None),
      axios_get = (\<lambda>h url dest. None),
      execFile = (\<lambda>h cmd args. None),
      readdir = (\<lambda>h d. Inr files),
      readFile = (\<lambda>h p. Inr p),
      sharp_metadata = (\<lambda>h b. Inr \<lparr>md_width = Some 2480, md_height = Some 3508\<rparr>),
      sharp_toBuffer = (\<lambda>h b opts q. Inr b),
      storage_upload = (\<lambda>h b p body. None),
      storage_publicUrl = (\<lambda>b p. ''https://x.supabase.co/storage/v1/object/public/'' @ b @ ''/'' @ p),
      rm = (\<lambda>h d. None)\<rparr>"

definition demo_config :: config where
  "demo_config = \<lparr>DEFAULT_BUCKET = ''editions'', SERVICE_SECRET = []\<rparr>"

definition demo_request :: request where
  "demo_request =
     \<lparr>x_api_key = None,
      body_editionId = Some ''ed1'',
      body_pdfUrl = Some ''https://example.org/a.pdf'',
      body_supabaseUrl = Some ''https://x.supabase.co'',
      body_supabaseKey = Some ''service-role-key'',
      body_bucket = None,
      body_variants = None,
      body_thumbnail = None\<rparr>"

definition init_state :: sys_state where
  "init_state = \<lparr>dirs = [], objects = Map.empty, calls = []\<rparr>"

text \<open>A configuration with a service secret, and a request for one variant and a custom thumbnail.\<close>

definition secret_config :: config where
  "secret_config = \<lparr>DEFAULT_BUCKET = ''editions'', SERVICE_SECRET = ''s3cret''\<rparr>"

definition tiny_request :: request where
  "tiny_request = demo_request
     \<lparr>body_variants := Some [\<lparr>key = ''medium'', width = 1400, height = None, quality = 80\<rparr>],
      body_thumbnail := Some \<lparr>key = ''tiny'', width = 120, height = Some 160, quality = 50\<rparr>\<rparr>"

text \<open>The message the \<open>catch\<close> block puts in the 500 envelope (line 236).\<close>

definition thrown_message :: "thrown \<Rightarrow> string" where
  "thrown_message err = (case err of JsError m \<Rightarrow> m | NonError str \<Rightarrow> ''Unknown error'')"

text \<open>A directory listing of two page files, out of order, and a stray file.\<close>

definition demo_world :: world where
  "demo_world = ok_world [''page-2.png'', ''notes.txt'', ''page-1.png'']"

text \<open>The storage refuses the thumbnail of page 1.\<close>

definition upload_fails_world :: world where
  "upload_fails_world = (ok_world [''page-1.png''])
     \<lparr>storage_upload :=
        (\<lambda>h b p c. if p = ''ed1/pages/tiny/001.webp'' then Some ''quota exceeded'' else None)\<rparr>"

text \<open>The rasterizer cannot be started.\<close>

definition pdftoppm_fails_world :: world where
  "pdftoppm_fails_world = (ok_world [])
     \<lparr>execFile := (\<lambda>h cmd args. Some (JsError ''spawn pdftoppm ENOENT''))\<rparr>"




section \<open>Strings and paths\<close>

lemma concat_replicate_single: "concat (replicate k [c]) = replicate k c"
  by (induction k) simp_all

lemma padNumber_zero_padded3: "padNumber n 3 = zero_padded3 n"
  by (simp add: padNumber_def padStart_def zero_padded3_def concat_replicate_single)

lemma buildStoragePath_spec: "buildStoragePath e k n = spec_storagePath e k n"
  by (simp add: buildStoragePath_def spec_storagePath_def padNumber_zero_padded3)

lemma thumbStoragePath_build: "thumbStoragePath e k n = buildStoragePath e k n"
  by (simp add: buildStoragePath_def thumbStoragePath_def)

lemma asset_path_not_manifest: "buildStoragePath e k n \<noteq> manifestPath e"
  by (simp add: buildStoragePath_def manifestPath_def)

lemma loop_paths_Nil: "loop_paths e vs th index 0 = []"
  by (simp add: loop_paths_def)

lemma loop_paths_Suc:
  "loop_paths e vs th index (Suc count) =
     map (\<lambda>k. buildStoragePath e k (Suc index)) (map key vs @ [key th]) @
     loop_paths e vs th (Suc index) count"
  by (simp add: loop_paths_def upt_conv_Cons del: upt_Suc)

lemma loop_paths_spec:
  "loop_paths e vs th 0 P = spec_uploads e (map key vs) (key th) P"
  by (simp add: loop_paths_def spec_uploads_def buildStoragePath_spec)

lemma length_loop_paths: "length (loop_paths e vs th index count) = count * (length vs + 1)"
  by (induction count arbitrary: index) (simp_all add: loop_paths_Nil loop_paths_Suc)

lemma manifest_not_in_loop_paths: "manifestPath e \<notin> set (loop_paths e vs th index count)"
  by (auto simp: loop_paths_def asset_path_not_manifest[THEN not_sym])

lemma manifest_page_of_spec: "manifest_page_of k page = spec_manifest_page k page"
  by (simp add: manifest_page_of_def spec_manifest_page_def spec_lowRes_def spec_medium_def
      spec_highRes_def spec_thumbnail_def opt_path_def nullish_def split: option.splits)

section \<open>The sort key of the rasterizer adapter\<close>











section \<open>Effects of the single calls\<close>

lemma upload_calls_append [simp]: "upload_calls (xs @ ys) = upload_calls xs @ upload_calls ys"
  by (induction xs rule: upload_calls.induct) simp_all

lemma render_calls_append [simp]: "render_calls (xs @ ys) = render_calls xs @ render_calls ys"
  by (induction xs rule: render_calls.induct) simp_all

lemma read_calls_append [simp]: "read_calls (xs @ ys) = read_calls xs @ read_calls ys"
  by (induction xs rule: read_calls.induct) simp_all

lemma uploads_during_append:
  "upload_calls (calls s') = upload_calls (calls s) @ X \<Longrightarrow> uploads_during s s' = X"
  by (simp add: uploads_during_def)

lemma uploads_during_same:
  "upload_calls (calls s') = upload_calls (calls s) \<Longrightarrow> uploads_during s s' = []"
  by (simp add: uploads_during_def)

lemma uploads_during_refl: "uploads_during s s = []"
  by (simp add: uploads_during_def)

lemma clone_frame:
  assumes "cloneSharpForVariant w i md c s = (r, s')"
  shows "upload_calls (calls s') = upload_calls (calls s)"
    and "read_calls (calls s') = read_calls (calls s)"
    and "objects s' = objects s" and "dirs s' = dirs s"
  using assms by (auto simp: cloneSharpForVariant_def log_call_def Let_def split: sum.splits)

lemma upload_ok:
  assumes "uploadBuffer w b p cont s = (Inr u, s')"
  shows "upload_calls (calls s') = upload_calls (calls s) @ [(b, p, True)]"
    and "read_calls (calls s') = read_calls (calls s)"
    and "render_calls (calls s') = render_calls (calls s)"
    and "objects s' = (objects s)((b, p) \<mapsto> cont)" and "dirs s' = dirs s"
  using assms by (auto simp: uploadBuffer_def log_call_def split: option.splits)

lemma upload_fail:
  assumes "uploadBuffer w b p cont s = (Inl e, s')"
  shows "upload_calls (calls s') = upload_calls (calls s) @ [(b, p, False)]"
    and "objects s' = objects s" and "dirs s' = dirs s"
    and "\<exists>msg. e = JsError (''Failed to upload '' @ p @ '': '' @ msg)"
  using assms by (auto simp: uploadBuffer_def log_call_def split: option.splits)

lemma read_file_frame:
  assumes "read_file w p s = (r, s')"
  shows "upload_calls (calls s') = upload_calls (calls s)"
    and "read_calls (calls s') = read_calls (calls s) @ [p]"
    and "objects s' = objects s" and "dirs s' = dirs s"
  using assms by (auto simp: read_file_def log_call_def split: sum.splits)

lemma image_metadata_frame:
  assumes "image_metadata w buf s = (r, s')"
  shows "upload_calls (calls s') = upload_calls (calls s)"
    and "read_calls (calls s') = read_calls (calls s)"
    and "objects s' = objects s" and "dirs s' = dirs s"
  using assms by (auto simp: image_metadata_def log_call_def split: sum.splits)

lemma removeDirSafe_frame:
  shows "upload_calls (calls (removeDirSafe w d s)) = upload_calls (calls s)"
    and "read_calls (calls (removeDirSafe w d s)) = read_calls (calls s)"
    and "render_calls (calls (removeDirSafe w d s)) = render_calls (calls s)"
    and "objects (removeDirSafe w d s) = objects s"
  by (auto simp: removeDirSafe_def log_call_def split: option.splits)

lemma only_assets_refl: "only_assets e s s"
  by (simp add: only_assets_def)

lemma only_assets_trans: "only_assets e s s1 \<Longrightarrow> only_assets e s1 s2 \<Longrightarrow> only_assets e s s2"
  unfolding only_assets_def by (elim exE conjE) (rule_tac x = "X @ Xa" in exI, simp)

lemma only_assets_silent:
  "upload_calls (calls s') = upload_calls (calls s) \<Longrightarrow> objects s' = objects s \<Longrightarrow>
   dirs s' = dirs s \<Longrightarrow> only_assets e s s'"
  by (simp add: only_assets_def)

lemma only_assets_upload:
  assumes "uploadBuffer w b (buildStoragePath e k n) cont s = (r, s')"
  shows "only_assets e s s'"
proof (cases r)
  case (Inl err)
  with assms upload_fail[of w b "buildStoragePath e k n" cont s err s'] show ?thesis
    by (simp add: only_assets_def asset_path_not_manifest)
next
  case (Inr u)
  with assms upload_ok[of w b "buildStoragePath e k n" cont s u s'] show ?thesis
    by (simp add: only_assets_def asset_path_not_manifest asset_path_not_manifest[THEN not_sym])
qed

section \<open>The two loops\<close>

lemma variants_loop_ok:
  "variants_loop w e b n buf md vs (vu, ups) s = (Inr (vu', ups'), s') \<Longrightarrow>
   ups' = ups @ map (\<lambda>v. buildStoragePath e (key v) n) vs \<and>
   upload_calls (calls s') =
     upload_calls (calls s) @ map (\<lambda>v. (b, buildStoragePath e (key v) n, True)) vs \<and>
   read_calls (calls s') = read_calls (calls s)"
proof (induction vs arbitrary: vu ups s)
  case Nil
  then show ?case by simp
next
  case (Cons v vs)
  from Cons.prems obtain buffer s1 s2 where
    c: "cloneSharpForVariant w buf md v s = (Inr buffer, s1)" and
    u: "uploadBuffer w b (buildStoragePath e (key v) n) (ImageBytes buffer) s1 = (Inr (), s2)" and
    r: "variants_loop w e b n buf md vs
          (vu(key v \<mapsto> \<lparr>path = buildStoragePath e (key v) n,
                        publicUrl = getPublicUrl w b (buildStoragePath e (key v) n)\<rparr>),
           ups @ [buildStoragePath e (key v) n]) s2 = (Inr (vu', ups'), s')"
    by (auto simp: Let_def split: prod.splits sum.splits)
  from Cons.IH[OF r] clone_frame[OF c] upload_ok[OF u] show ?case by simp
qed

lemma variants_loop_any:
  "variants_loop w e b n buf md vs (vu, ups) s = (r, s') \<Longrightarrow> only_assets e s s'"
proof (induction vs arbitrary: vu ups s)
  case Nil
  then show ?case by (simp add: only_assets_refl)
next
  case (Cons v vs)
  obtain r1 s1 where c: "cloneSharpForVariant w buf md v s = (r1, s1)" by fastforce
  have a1: "only_assets e s s1" using clone_frame[OF c] by (simp add: only_assets_silent)
  show ?case
  proof (cases r1)
    case (Inl err)
    with Cons.prems c a1 show ?thesis by simp
  next
    case (Inr buffer)
    obtain r2 s2 where
      u: "uploadBuffer w b (buildStoragePath e (key v) n) (ImageBytes buffer) s1 = (r2, s2)"
      by fastforce
    have a2: "only_assets e s s2" using a1 only_assets_upload[OF u] by (rule only_assets_trans)
    show ?thesis
    proof (cases r2)
      case (Inl err)
      with Cons.prems c Inr u a2 show ?thesis by (simp add: Let_def)
    next
      case (Inr un)
      with Cons.prems c \<open>r1 = Inr buffer\<close> u
      have "variants_loop w e b n buf md vs
          (vu(key v \<mapsto> \<lparr>path = buildStoragePath e (key v) n,
                        publicUrl = getPublicUrl w b (buildStoragePath e (key v) n)\<rparr>),
           ups @ [buildStoragePath e (key v) n]) s2 = (r, s')"
        by (simp add: Let_def)
      from Cons.IH[OF this] a2 show ?thesis by (rule only_assets_trans[rotated])
    qed
  qed
qed

lemma page_body_any:
  assumes "page_body w e b vs th p index ups s = (r, s')"
  shows "only_assets e s s'"
proof -
  obtain r1 s1 where f: "read_file w p s = (r1, s1)" by fastforce
  have a1: "only_assets e s s1" using read_file_frame[OF f] by (simp add: only_assets_silent)
  show ?thesis
  proof (cases r1)
    case (Inl err)
    with assms f a1 show ?thesis by (simp add: page_body_def)
  next
    case r1: (Inr buf)
    obtain r2 s2 where m: "image_metadata w buf s1 = (r2, s2)" by fastforce
    have a2: "only_assets e s s2"
      using a1 image_metadata_frame[OF m] by (blast intro: only_assets_trans only_assets_silent)
    show ?thesis
    proof (cases r2)
      case (Inl err)
      with assms f r1 m a2 show ?thesis by (simp add: page_body_def)
    next
      case r2: (Inr md)
      obtain r3 s3 where
        v: "variants_loop w e b (index + 1) buf md vs (Map.empty, ups) s2 = (r3, s3)"
        by fastforce
      have a3: "only_assets e s s3"
        using a2 variants_loop_any[OF v] by (rule only_assets_trans)
      show ?thesis
      proof (cases r3)
        case (Inl err)
        with assms f r1 m r2 v a3 show ?thesis by (simp add: page_body_def)
      next
        case (Inr acc)
        then obtain vu ups1 where r3: "r3 = Inr (vu, ups1)" by (cases acc) simp
        obtain r4 s4 where c: "cloneSharpForVariant w buf md th s3 = (r4, s4)" by fastforce
        have a4: "only_assets e s s4"
          using a3 clone_frame[OF c] by (blast intro: only_assets_trans only_assets_silent)
        show ?thesis
        proof (cases r4)
          case (Inl err)
          with assms f r1 m r2 v r3 c a4 show ?thesis by (simp add: page_body_def)
        next
          case r4: (Inr tb)
          obtain r5 s5 where
            u: "uploadBuffer w b (buildStoragePath e (key th) (index + 1)) (ImageBytes tb) s4 = (r5, s5)"
            by fastforce
          have a5: "only_assets e s s5"
            using a4 only_assets_upload[OF u] by (rule only_assets_trans)
          from assms f r1 m r2 v r3 c r4 u have "s' = s5"
            by (cases r5) (simp_all add: page_body_def thumbStoragePath_build Let_def)
          with a5 show ?thesis by simp
        qed
      qed
    qed
  qed
qed

lemma page_body_ok:
  assumes "page_body w e b vs th p index ups s = (Inr (entry, ups'), s')"
  shows "pageNumber entry = Suc index"
    and "ups' = ups @ map (\<lambda>k. buildStoragePath e k (Suc index)) (map key vs @ [key th])"
    and "upload_calls (calls s') = upload_calls (calls s) @
           map (\<lambda>k. (b, buildStoragePath e k (Suc index), True)) (map key vs @ [key th])"
    and "read_calls (calls s') = read_calls (calls s) @ [p]"
proof -
  from assms obtain buf s1 md s2 vu ups1 s3 tb s4 where
    f: "read_file w p s = (Inr buf, s1)" and
    m: "image_metadata w buf s1 = (Inr md, s2)" and
    v: "variants_loop w e b (Suc index) buf md vs (Map.empty, ups) s2 = (Inr (vu, ups1), s3)" and
    c: "cloneSharpForVariant w buf md th s3 = (Inr tb, s4)" and
    u: "uploadBuffer w b (buildStoragePath e (key th) (Suc index)) (ImageBytes tb) s4 = (Inr (), s')" and
    en: "pageNumber entry = Suc index" and
    up: "ups' = ups1 @ [buildStoragePath e (key th) (Suc index)]"
    by (auto simp: page_body_def thumbStoragePath_build Let_def split: prod.splits sum.splits)
  note fr = read_file_frame[OF f] image_metadata_frame[OF m] variants_loop_ok[OF v]
    clone_frame[OF c] upload_ok[OF u]
  show "pageNumber entry = Suc index" by (rule en)
  show "ups' = ups @ map (\<lambda>k. buildStoragePath e k (Suc index)) (map key vs @ [key th])"
    using up fr by (simp add: comp_def)
  show "upload_calls (calls s') = upload_calls (calls s) @
           map (\<lambda>k. (b, buildStoragePath e k (Suc index), True)) (map key vs @ [key th])"
    using fr by (simp add: comp_def)
  show "read_calls (calls s') = read_calls (calls s) @ [p]"
    using fr by simp
qed

lemma pages_loop_any:
  "pages_loop w e b vs th pngs index (mps, ups) s = (r, s') \<Longrightarrow> only_assets e s s'"
proof (induction pngs arbitrary: index mps ups s)
  case Nil
  then show ?case by (simp add: only_assets_refl)
next
  case (Cons p pngs)
  obtain r1 s1 where pb: "page_body w e b vs th p index ups s = (r1, s1)" by fastforce
  have a1: "only_assets e s s1" using page_body_any[OF pb] .
  show ?case
  proof (cases r1)
    case (Inl err)
    with Cons.prems pb a1 show ?thesis by simp
  next
    case (Inr x)
    then obtain entry ups1 where r1: "r1 = Inr (entry, ups1)" by (cases x) simp
    with Cons.prems pb
    have "pages_loop w e b vs th pngs (index + 1) (mps @ [entry], ups1) s1 = (r, s')" by simp
    from Cons.IH[OF this] a1 show ?thesis by (rule only_assets_trans[rotated])
  qed
qed

lemma pages_loop_ok:
  "pages_loop w e b vs th pngs index (mps, ups) s = (Inr (mps', ups'), s') \<Longrightarrow>
   map pageNumber mps' = map pageNumber mps @ [Suc index..<Suc (index + length pngs)] \<and>
   ups' = ups @ loop_paths e vs th index (length pngs) \<and>
   upload_calls (calls s') =
     upload_calls (calls s) @ map (\<lambda>p. (b, p, True)) (loop_paths e vs th index (length pngs)) \<and>
   read_calls (calls s') = read_calls (calls s) @ pngs"
proof (induction pngs arbitrary: index mps ups s)
  case Nil
  then show ?case by (simp add: loop_paths_Nil)
next
  case (Cons p pngs)
  from Cons.prems obtain entry ups1 s1 where
    pb: "page_body w e b vs th p index ups s = (Inr (entry, ups1), s1)" and
    r: "pages_loop w e b vs th pngs (Suc index) (mps @ [entry], ups1) s1 = (Inr (mps', ups'), s')"
    by (auto split: prod.splits sum.splits)
  from Cons.IH[OF r] page_body_ok[OF pb] show ?case
    by (simp add: loop_paths_Suc upt_conv_Cons del: upt_Suc)
qed

section \<open>The phases of the handler\<close>

lemma publish_pages_ok:
  assumes "publish_pages w e url b vs th tmp pngs s = (Inr res, s')"
  shows "\<exists>sb man. res = \<lparr>status = 200, body = Success sb\<rparr> \<and>
           res_editionId sb = e \<and> res_bucket sb = b \<and> res_manifestPath sb = manifestPath e \<and>
           res_totalPages sb = length pngs \<and>
           map pageNumber (res_pages sb) = [1..<Suc (length pngs)] \<and>
           res_uploads sb = loop_paths e vs th 0 (length pngs) \<and>
           upload_calls (calls s') = upload_calls (calls s) @
             map (\<lambda>p. (b, p, True)) (loop_paths e vs th 0 (length pngs)) @ [(b, manifestPath e, True)] \<and>
           read_calls (calls s') = read_calls (calls s) @ pngs \<and>
           objects s' (b, manifestPath e) = Some (ManifestJson man) \<and>
           manifest_pages man = map (manifest_page_of (key th)) (res_pages sb) \<and>
           edition_totalPages man = length pngs \<and> pngs \<noteq> []"
proof -
  from assms have ne: "pngs \<noteq> []" by (auto simp: publish_pages_def split: if_splits)
  obtain r1 s1 where l: "pages_loop w e b vs th pngs 0 ([], []) s = (r1, s1)" by fastforce
  with assms ne obtain mps ups where r1: "r1 = Inr (mps, ups)"
    by (cases r1) (auto simp: publish_pages_def Let_def)
  define man where "man = build_manifest e
     (ensureTrailingSlash (url @ ''/storage/v1/object/public/'' @ b)) b th (now_iso w (calls s1)) mps"
  obtain r2 s2 where u: "uploadBuffer w b (manifestPath e) (ManifestJson man) s1 = (r2, s2)"
    by fastforce
  with assms ne l r1 have r2: "r2 = Inr ()"
    by (cases r2) (auto simp: publish_pages_def Let_def man_def)
  from assms ne l r1 u r2 have
    s': "s' = removeDirSafe w tmp s2" and
    res: "res = \<lparr>status = 200, body = Success
            \<lparr>res_editionId = e, res_bucket = b, res_manifestPath = manifestPath e,
             res_totalPages = length (manifest_pages man), res_pages = mps, res_uploads = ups\<rparr>\<rparr>"
    by (auto simp: publish_pages_def Let_def man_def)
  have man: "manifest_pages man = map (manifest_page_of (key th)) mps"
            "edition_totalPages man = length mps"
    by (simp_all add: man_def build_manifest_def)
  from pages_loop_ok[OF l[unfolded r1]] have
    pn: "map pageNumber mps = [1..<Suc (length pngs)]" and
    up: "ups = loop_paths e vs th 0 (length pngs)" and
    uc: "upload_calls (calls s1) = upload_calls (calls s) @
           map (\<lambda>p. (b, p, True)) (loop_paths e vs th 0 (length pngs))" and
    rc: "read_calls (calls s1) = read_calls (calls s) @ pngs"
    by simp_all
  from pn have len: "length mps = length pngs"
    by (metis length_map length_upt diff_Suc_1)
  show ?thesis
    using res man pn up uc rc len ne upload_ok[OF u[unfolded r2]] s'
    by (simp add: removeDirSafe_frame)
qed

lemma publish_pages_fail:
  assumes "publish_pages w e url b vs th tmp pngs s = (Inl err, s')"
  shows "(pngs = [] \<and> s' = s \<and> err = JsError ''No pages produced during PDF conversion'') \<or>
         (pngs \<noteq> [] \<and> only_assets e s s') \<or>
         (pngs \<noteq> [] \<and>
          upload_calls (calls s') = upload_calls (calls s) @
            map (\<lambda>p. (b, p, True)) (loop_paths e vs th 0 (length pngs)) @
            [(b, manifestPath e, False)] \<and>
          (\<forall>b'. objects s' (b', manifestPath e) = objects s (b', manifestPath e)) \<and>
          dirs s' = dirs s)"
proof (cases "pngs = []")
  case True
  with assms show ?thesis by (simp add: publish_pages_def)
next
  case ne: False
  obtain r1 s1 where l: "pages_loop w e b vs th pngs 0 ([], []) s = (r1, s1)" by fastforce
  note oa = pages_loop_any[OF l]
  show ?thesis
  proof (cases r1)
    case (Inl e1)
    with assms ne l have "s' = s1" by (simp add: publish_pages_def)
    with oa ne show ?thesis by simp
  next
    case (Inr x)
    then obtain mps ups where r1: "r1 = Inr (mps, ups)" by (cases x) simp
    define man where "man = build_manifest e
       (ensureTrailingSlash (url @ ''/storage/v1/object/public/'' @ b)) b th (now_iso w (calls s1)) mps"
    obtain r2 s2 where u: "uploadBuffer w b (manifestPath e) (ManifestJson man) s1 = (r2, s2)"
      by fastforce
    from assms ne l r1 u obtain e2 where r2: "r2 = Inl e2" and s': "s' = s2"
      by (cases r2) (auto simp: publish_pages_def Let_def man_def)
    note uf = upload_fail[OF u[unfolded r2]]
    note lo = pages_loop_ok[OF l[unfolded r1]]
    from oa have ob: "\<forall>b'. objects s1 (b', manifestPath e) = objects s (b', manifestPath e)"
      and di: "dirs s1 = dirs s"
      by (auto simp: only_assets_def)
    from uf lo ob di ne show ?thesis unfolding s' by simp
  qed
qed

lemma publish_pages_fail_dirs:
  assumes "publish_pages w e url b vs th tmp pngs s = (Inl err, s')"
  shows "dirs s' = dirs s"
  using publish_pages_fail[OF assms] by (auto simp: only_assets_def)

lemma acquire_pages_frame:
  assumes "acquire_pages w pdfUrl url k s = (r, s')"
  shows "upload_calls (calls s') = upload_calls (calls s)"
    and "render_calls (calls s') = render_calls (calls s)"
    and "read_calls (calls s') = read_calls (calls s)"
    and "objects s' = objects s"
  using assms
  by (auto simp: acquire_pages_def new_client_def createTempDir_def mkdir_p_def downloadPdf_def
      convertPdfToPng_def log_call_def Let_def split: option.splits sum.splits prod.splits)

lemma acquire_pages_dir:
  assumes "acquire_pages w pdfUrl url k s = (Inr (tempRoot, pngPages), s')"
  shows "tempRoot \<in> set (dirs s')"
  using assms
  by (auto simp: acquire_pages_def new_client_def createTempDir_def mkdir_p_def downloadPdf_def
      convertPdfToPng_def log_call_def Let_def split: option.splits sum.splits prod.splits)

section \<open>The exits of the handler\<close>

lemma convert_unauthorized:
  "\<not> authorized cfg req \<Longrightarrow>
   convert cfg w req s = (\<lparr>status = 401, body = Failure ''Unauthorized''\<rparr>, s)"
  by (auto simp: authorized_def convert_def convert_try_def split: option.splits)

lemma convert_invalid:
  "authorized cfg req \<Longrightarrow> missing_field req \<Longrightarrow>
   convert cfg w req s =
     (\<lparr>status = 400,
       body = Failure ''Missing required parameters (editionId, pdfUrl, supabaseUrl, supabaseKey)''\<rparr>, s)"
  by (auto simp: authorized_def missing_field_def convert_def convert_try_def split: option.splits)

lemma convert_valid:
  "authorized cfg req \<Longrightarrow> \<not> missing_field req \<Longrightarrow>
   convert_try cfg w req s =
     (case acquire_pages w (str_of (body_pdfUrl req)) (str_of (body_supabaseUrl req))
             (str_of (body_supabaseKey req)) s of
        (Inl e, s1) \<Rightarrow> (Inl e, s1)
      | (Inr (tempRoot, pngPages), s1) \<Rightarrow>
          publish_pages w (str_of (body_editionId req)) (str_of (body_supabaseUrl req))
            (req_bucket cfg req) (req_variants req) (req_thumbnail req) tempRoot pngPages s1)"
  by (auto simp: authorized_def missing_field_def convert_try_def Let_def split: option.splits)

lemma convert_authorized_status:
  assumes a: "authorized cfg req"
  shows "status (fst (convert cfg w req s)) \<in> {200, 400, 500}"
proof (cases "missing_field req")
  case True
  with a show ?thesis by (simp add: convert_invalid)
next
  case False
  obtain r1 s1 where acq: "acquire_pages w (str_of (body_pdfUrl req))
      (str_of (body_supabaseUrl req)) (str_of (body_supabaseKey req)) s = (r1, s1)"
    by fastforce
  show ?thesis
  proof (cases r1)
    case (Inl e)
    with a False acq show ?thesis by (simp add: convert_def convert_valid)
  next
    case (Inr x)
    then obtain tempRoot pngPages where r1: "r1 = Inr (tempRoot, pngPages)" by (cases x) simp
    obtain r2 s2 where pub: "publish_pages w (str_of (body_editionId req))
        (str_of (body_supabaseUrl req)) (req_bucket cfg req) (req_variants req)
        (req_thumbnail req) tempRoot pngPages s1 = (r2, s2)"
      by fastforce
    show ?thesis
    proof (cases r2)
      case (Inl e)
      with a False acq r1 pub show ?thesis by (simp add: convert_def convert_valid)
    next
      case (Inr res)
      with publish_pages_ok[OF pub[unfolded Inr]] have "status res = 200" by auto
      with a False acq r1 pub Inr show ?thesis by (simp add: convert_def convert_valid)
    qed
  qed
qed

lemma convert_cases:
  assumes run: "convert cfg w req s = (res, s')"
  obtains
    (unauthorized) "\<not> authorized cfg req" "res = \<lparr>status = 401, body = Failure ''Unauthorized''\<rparr>"
      "s' = s"
  | (invalid) "authorized cfg req" "missing_field req" "status res = 400" "\<not> success (body res)"
      "s' = s"
  | (acquire_failed) err where "authorized cfg req" "\<not> missing_field req"
      "acquire_pages w (str_of (body_pdfUrl req)) (str_of (body_supabaseUrl req))
         (str_of (body_supabaseKey req)) s = (Inl err, s')"
      "res = \<lparr>status = 500, body = Failure (thrown_message err)\<rparr>"
  | (publish_failed) tempRoot pngPages s1 err where "authorized cfg req" "\<not> missing_field req"
      "acquire_pages w (str_of (body_pdfUrl req)) (str_of (body_supabaseUrl req))
         (str_of (body_supabaseKey req)) s = (Inr (tempRoot, pngPages), s1)"
      "publish_pages w (str_of (body_editionId req)) (str_of (body_supabaseUrl req))
         (req_bucket cfg req) (req_variants req) (req_thumbnail req) tempRoot pngPages s1 =
         (Inl err, s')"
      "res = \<lparr>status = 500, body = Failure (thrown_message err)\<rparr>"
  | (published) tempRoot pngPages s1 where "authorized cfg req" "\<not> missing_field req"
      "acquire_pages w (str_of (body_pdfUrl req)) (str_of (body_supabaseUrl req))
         (str_of (body_supabaseKey req)) s = (Inr (tempRoot, pngPages), s1)"
      "publish_pages w (str_of (body_editionId req)) (str_of (body_supabaseUrl req))
         (req_bucket cfg req) (req_variants req) (req_thumbnail req) tempRoot pngPages s1 =
         (Inr res, s')"
proof (cases "authorized cfg req")
  case False
  with run unauthorized show ?thesis by (auto simp: convert_unauthorized)
next
  case a: True
  show ?thesis
  proof (cases "missing_field req")
    case True
    with run a invalid show ?thesis by (auto simp: convert_invalid)
  next
    case m: False
    obtain r1 s1 where acq: "acquire_pages w (str_of (body_pdfUrl req))
        (str_of (body_supabaseUrl req)) (str_of (body_supabaseKey req)) s = (r1, s1)"
      by fastforce
    show ?thesis
    proof (cases r1)
      case (Inl e)
      with run a m acq have "s' = s1" "res = \<lparr>status = 500, body = Failure (thrown_message e)\<rparr>"
        by (auto simp: convert_def convert_valid thrown_message_def)
      with a m acq Inl acquire_failed show ?thesis by simp
    next
      case (Inr x)
      then obtain tempRoot pngPages where r1: "r1 = Inr (tempRoot, pngPages)" by (cases x) simp
      obtain r2 s2 where pub: "publish_pages w (str_of (body_editionId req))
          (str_of (body_supabaseUrl req)) (req_bucket cfg req) (req_variants req)
          (req_thumbnail req) tempRoot pngPages s1 = (r2, s2)"
        by fastforce
      show ?thesis
      proof (cases r2)
        case (Inl e)
        with run a m acq r1 pub
        have "s' = s2" "res = \<lparr>status = 500, body = Failure (thrown_message e)\<rparr>"
          by (auto simp: convert_def convert_valid thrown_message_def)
        with a m acq r1 pub Inl publish_failed show ?thesis by simp
      next
        case (Inr res2)
        with run a m acq r1 pub have "s' = s2" "res = res2"
          by (auto simp: convert_def convert_valid)
        with a m acq r1 pub Inr published show ?thesis by simp
      qed
    qed
  qed
qed

lemma convert_success_inv:
  assumes run: "convert cfg w req s = (res, s')" and ok: "success (body res)"
  obtains tempRoot pngPages s1 where
      "acquire_pages w (str_of (body_pdfUrl req)) (str_of (body_supabaseUrl req))
         (str_of (body_supabaseKey req)) s = (Inr (tempRoot, pngPages), s1)"
      "publish_pages w (str_of (body_editionId req)) (str_of (body_supabaseUrl req))
         (req_bucket cfg req) (req_variants req) (req_thumbnail req) tempRoot pngPages s1 =
         (Inr res, s')"
  using run
proof (cases rule: convert_cases)
  case unauthorized
  with ok show ?thesis by simp
next
  case invalid
  with ok show ?thesis by simp
next
  case (acquire_failed err)
  with ok show ?thesis by simp
next
  case (publish_failed tempRoot pngPages s1 err)
  with ok show ?thesis by simp
next
  case (published tempRoot pngPages s1)
  with that show ?thesis by blast
qed

lemma convert_published:
  assumes run: "convert cfg w req s = (res, s')" and ok: "body res = Success sb"
  obtains tempRoot pngPages s1 man where
    "acquire_pages w (str_of (body_pdfUrl req)) (str_of (body_supabaseUrl req))
       (str_of (body_supabaseKey req)) s = (Inr (tempRoot, pngPages), s1)"
    "status res = 200"
    "res_editionId sb = str_of (body_editionId req)"
    "res_bucket sb = req_bucket cfg req"
    "res_manifestPath sb = manifestPath (str_of (body_editionId req))"
    "res_totalPages sb = length pngPages"
    "map pageNumber (res_pages sb) = [1..<Suc (length pngPages)]"
    "res_uploads sb = loop_paths (str_of (body_editionId req)) (req_variants req)
       (req_thumbnail req) 0 (length pngPages)"
    "uploads_during s s' =
       map (\<lambda>p. (req_bucket cfg req, p, True)) (res_uploads sb) @
       [(req_bucket cfg req, res_manifestPath sb, True)]"
    "read_calls (calls s') = read_calls (calls s) @ pngPages"
    "objects s' (res_bucket sb, res_manifestPath sb) = Some (ManifestJson man)"
    "manifest_pages man = map (manifest_page_of (key (req_thumbnail req))) (res_pages sb)"
    "pngPages \<noteq> []"
proof -
  from ok have "success (body res)" by simp
  with run obtain tempRoot pngPages s1 where
    acq: "acquire_pages w (str_of (body_pdfUrl req)) (str_of (body_supabaseUrl req))
         (str_of (body_supabaseKey req)) s = (Inr (tempRoot, pngPages), s1)" and
    pub: "publish_pages w (str_of (body_editionId req)) (str_of (body_supabaseUrl req))
         (req_bucket cfg req) (req_variants req) (req_thumbnail req) tempRoot pngPages s1 =
         (Inr res, s')"
    by (rule convert_success_inv)
  from publish_pages_ok[OF pub] ok obtain man where
    f: "status res = 200"
       "res_editionId sb = str_of (body_editionId req)"
       "res_bucket sb = req_bucket cfg req"
       "res_manifestPath sb = manifestPath (str_of (body_editionId req))"
       "res_totalPages sb = length pngPages"
       "map pageNumber (res_pages sb) = [1..<Suc (length pngPages)]"
       "res_uploads sb = loop_paths (str_of (body_editionId req)) (req_variants req)
          (req_thumbnail req) 0 (length pngPages)" and
    uc: "upload_calls (calls s') = upload_calls (calls s1) @
           map (\<lambda>p. (req_bucket cfg req, p, True))
             (loop_paths (str_of (body_editionId req)) (req_variants req) (req_thumbnail req) 0
                (length pngPages)) @
           [(req_bucket cfg req, manifestPath (str_of (body_editionId req)), True)]" and
    rc: "read_calls (calls s') = read_calls (calls s1) @ pngPages" and
    ob: "objects s' (req_bucket cfg req, manifestPath (str_of (body_editionId req))) =
           Some (ManifestJson man)"
        "manifest_pages man = map (manifest_page_of (key (req_thumbnail req))) (res_pages sb)" and
    ne: "pngPages \<noteq> []"
    by auto
  from uc acquire_pages_frame(1)[OF acq]
  have ud: "uploads_during s s' =
           map (\<lambda>p. (req_bucket cfg req, p, True)) (res_uploads sb) @
           [(req_bucket cfg req, res_manifestPath sb, True)]"
    by (simp add: uploads_during_append f)
  from rc acquire_pages_frame(3)[OF acq]
  have rd: "read_calls (calls s') = read_calls (calls s) @ pngPages" by simp
  from that[OF acq f ud rd] ob ne f show ?thesis by simp
qed

lemma failure_keeps_temp_dir:
  assumes run: "convert cfg w req s = (res, s')" and failed: "\<not> success (body res)"
    and acq: "acquire_pages w (str_of (body_pdfUrl req)) (str_of (body_supabaseUrl req))
                (str_of (body_supabaseKey req)) s = (Inr (tempRoot, pngPages), s1)"
    and a: "authorized cfg req" and m: "\<not> missing_field req"
  shows "tempRoot \<in> set (dirs s')"
proof -
  obtain r2 s2 where pub: "publish_pages w (str_of (body_editionId req))
      (str_of (body_supabaseUrl req)) (req_bucket cfg req) (req_variants req)
      (req_thumbnail req) tempRoot pngPages s1 = (r2, s2)"
    by fastforce
  show ?thesis
  proof (cases r2)
    case (Inl err)
    with run a m acq pub have "s' = s2" by (simp add: convert_def convert_valid)
    with publish_pages_fail_dirs[OF pub[unfolded Inl]] acquire_pages_dir[OF acq]
    show ?thesis by simp
  next
    case (Inr r)
    with run a m acq pub have "res = r" by (simp add: convert_def convert_valid)
    with publish_pages_ok[OF pub[unfolded Inr]] failed show ?thesis by auto
  qed
qed

section \<open>Evaluated runs\<close>

lemmas run_defs =
  convert_def convert_try_def acquire_pages_def publish_pages_def page_body_def
  new_client_def createTempDir_def mkdir_p_def downloadPdf_def convertPdfToPng_def
  cloneSharpForVariant_def uploadBuffer_def getPublicUrl_def read_file_def image_metadata_def
  removeDirSafe_def log_call_def build_manifest_def manifest_page_of_def
  resize_for_def targetWidth_def or_null_def opt_path_def nullish_def
  req_bucket_def req_variants_def req_thumbnail_def falsy_def str_of_def
  buildStoragePath_def thumbStoragePath_def manifestPath_def padNumber_def padStart_def
  path_join_def startsWith_def endsWith_def under_def digit_char_def
  page_index_def match_page_digits_def parseInt10_def decimal_value_def to_double_def
  is_page_file_def is_digit_def digit_val_def
  ensureTrailingSlash_def VARIANTS_def THUMBNAIL_VARIANT_def
  ok_world_def demo_config_def demo_request_def init_state_def String_of.simps Let_def

lemma tiny_run_response:
  "fst (convert demo_config (ok_world [''page-1.png'']) tiny_request init_state) =
     \<lparr>status = 200,
      body = Success
        \<lparr>res_editionId = ''ed1'',
         res_bucket = ''editions'',
         res_manifestPath = ''ed1/manifest.json'',
         res_totalPages = 1,
         res_pages =
           [\<lparr>pageNumber = 1, page_width = Val 2480, page_height = Val 3508,
             assets = [''medium'' \<mapsto>
                 \<lparr>path = ''ed1/pages/medium/001.webp'',
                  publicUrl = ''https://x.supabase.co/storage/v1/object/public/editions/ed1/pages/medium/001.webp''\<rparr>,
               ''tiny'' \<mapsto>
                 \<lparr>path = ''ed1/pages/tiny/001.webp'',
                  publicUrl = ''https://x.supabase.co/storage/v1/object/public/editions/ed1/pages/tiny/001.webp''\<rparr>]\<rparr>],
         res_uploads = [''ed1/pages/medium/001.webp'', ''ed1/pages/tiny/001.webp'']\<rparr>\<rparr>"
  by (simp add: run_defs tiny_request_def numeral_2_eq_2)

lemma demo_run_success:
  "success (body (fst (convert demo_config demo_world demo_request init_state)))"
  by (simp add: run_defs demo_world_def numeral_2_eq_2)

lemma demo_acquire:
  "fst (acquire_pages demo_world ''https://example.org/a.pdf'' ''https://x.supabase.co''
          ''service-role-key'' init_state) =
     Inr (''/tmp/pdf-conversion-abc123'',
          [''/tmp/pdf-conversion-abc123/png/page-1.png'',
           ''/tmp/pdf-conversion-abc123/png/page-2.png''])"
  by (simp add: run_defs demo_world_def)

lemma empty_acquire:
  "fst (acquire_pages (ok_world []) ''https://example.org/a.pdf'' ''https://x.supabase.co''
          ''service-role-key'' init_state) = Inr (''/tmp/pdf-conversion-abc123'', [])"
  by (simp add: run_defs)

lemma tiny_rerun_response:
  "fst (convert demo_config (ok_world [''page-1.png'']) tiny_request
          (snd (convert demo_config (ok_world [''page-1.png'']) tiny_request init_state))) =
   fst (convert demo_config (ok_world [''page-1.png'']) tiny_request init_state)"
  by (simp add: run_defs tiny_request_def numeral_2_eq_2)

lemma upload_fails_run:
  "fst (convert demo_config upload_fails_world tiny_request init_state) =
     \<lparr>status = 500, body = Failure ''Failed to upload ed1/pages/tiny/001.webp: quota exceeded''\<rparr>"
  "uploads_during init_state (snd (convert demo_config upload_fails_world tiny_request init_state)) =
     [(''editions'', ''ed1/pages/medium/001.webp'', True),
      (''editions'', ''ed1/pages/tiny/001.webp'', False)]"
  "objects (snd (convert demo_config upload_fails_world tiny_request init_state))
     (''editions'', ''ed1/manifest.json'') = None"
  by (simp_all add: run_defs tiny_request_def upload_fails_world_def uploads_during_def
      numeral_2_eq_2)

lemma tiny_run_uploads:
  "uploads_during init_state
     (snd (convert demo_config (ok_world [''page-1.png'']) tiny_request init_state)) =
     [(''editions'', ''ed1/pages/medium/001.webp'', True),
      (''editions'', ''ed1/pages/tiny/001.webp'', True),
      (''editions'', ''ed1/manifest.json'', True)]"
  by (simp add: run_defs tiny_request_def uploads_during_def numeral_2_eq_2)









section \<open>The claims\<close>

text \<open>
  C1. The claim does not hold of the handler: \<open>removeDirSafe\<close> is reached on the
  success path only (line 221). Here the request is valid and \<open>pdftoppm\<close> cannot be
  started: the answer is the 500 envelope, the temporary directory and its \<open>png\<close>
  subdirectory are still there, and no \<open>rm\<close> was ever called. The lemma
  \<open>failure_keeps_temp_dir\<close> above shows the same for every failure after the
  directory was created.
\<close>

theorem C1_failure_leaves_temp_dir:
  "fst (convert demo_config pdftoppm_fails_world demo_request init_state) =
     \<lparr>status = 500, body = Failure ''pdftoppm failed: spawn pdftoppm ENOENT''\<rparr> \<and>
   dirs (snd (convert demo_config pdftoppm_fails_world demo_request init_state)) =
     [''/tmp/pdf-conversion-abc123'', ''/tmp/pdf-conversion-abc123/png''] \<and>
   calls (snd (convert demo_config pdftoppm_fails_world demo_request init_state)) =
     [CreateClient ''https://x.supabase.co'' ''service-role-key'',
      Mkdtemp ''/tmp/pdf-conversion-'',
      Mkdir ''/tmp/pdf-conversion-abc123/png'',
      HttpGet ''https://example.org/a.pdf'' ''/tmp/pdf-conversion-abc123/u1.pdf'',
      ExecFile ''pdftoppm''
        [''-png'', ''-r'', ''300'', ''/tmp/pdf-conversion-abc123/u1.pdf'',
         ''/tmp/pdf-conversion-abc123/png/page'']]"
  by (simp add: run_defs pdftoppm_fails_world_def)

text \<open>
  C2. \<open>buildStoragePath\<close> and the thumbnail's template both give
  \<open>{editionId}/pages/{key}/{page number filled with zeros to three digits}.webp\<close>. In a
  successful answer \<open>uploads\<close> is that path for each page from 1 to \<open>totalPages\<close> and,
  within a page, each configured variant and then the thumbnail; the manifest path is
  \<open>{editionId}/manifest.json\<close>; and these are the paths written to the storage. A
  second successful run of the same request with the same number of pages, in any
  world and from any state, gives the same paths.
\<close>

theorem C2_storage_paths:
  assumes run: "convert cfg w req s = (res, s')" and ok: "body res = Success sb"
    and run2: "convert cfg2 w2 req s2 = (res2, s2')" and ok2: "body res2 = Success sb2"
    and same: "res_totalPages sb2 = res_totalPages sb"
  shows "buildStoragePath e k n = e @ ''/pages/'' @ k @ ''/'' @ zero_padded3 n @ ''.webp'' \<and>
         thumbStoragePath e k n = e @ ''/pages/'' @ k @ ''/'' @ zero_padded3 n @ ''.webp'' \<and>
         res_uploads sb =
           spec_uploads (str_of (body_editionId req)) (map key (req_variants req))
             (key (req_thumbnail req)) (res_totalPages sb) \<and>
         res_manifestPath sb = str_of (body_editionId req) @ ''/manifest.json'' \<and>
         map (\<lambda>u. fst (snd u)) (uploads_during s s') = res_uploads sb @ [res_manifestPath sb] \<and>
         res_uploads sb2 = res_uploads sb \<and> res_manifestPath sb2 = res_manifestPath sb \<and>
         map (\<lambda>u. fst (snd u)) (uploads_during s2 s2') = map (\<lambda>u. fst (snd u)) (uploads_during s s')"
proof -
  have paths: "res_uploads b = spec_uploads (str_of (body_editionId req)) (map key (req_variants req))
             (key (req_thumbnail req)) (res_totalPages b) \<and>
         res_manifestPath b = str_of (body_editionId req) @ ''/manifest.json'' \<and>
         map (\<lambda>u. fst (snd u)) (uploads_during t t') = res_uploads b @ [res_manifestPath b]"
    if r: "convert c v req t = (rs, t')" and o: "body rs = Success b" for c v t rs t' b
  proof (rule convert_published[OF r o], goal_cases)
    case (1 tempRoot pngPages s1 man)
    then show ?case by (simp add: loop_paths_spec manifestPath_def comp_def)
  qed
  from paths[OF run ok] paths[OF run2 ok2] same show ?thesis
    by (simp add: buildStoragePath_spec[unfolded spec_storagePath_def] thumbStoragePath_build)
qed

theorem C2_storage_paths_witness:
  "\<exists>sb sb2.
     body (fst (convert demo_config (ok_world [''page-1.png'']) tiny_request init_state)) = Success sb \<and>
     body (fst (convert demo_config (ok_world [''page-1.png'']) tiny_request
       (snd (convert demo_config (ok_world [''page-1.png'']) tiny_request init_state)))) = Success sb2 \<and>
     res_uploads sb = [''ed1/pages/medium/001.webp'', ''ed1/pages/tiny/001.webp''] \<and>
     res_manifestPath sb = ''ed1/manifest.json'' \<and>
     res_uploads sb2 = res_uploads sb \<and> res_manifestPath sb2 = res_manifestPath sb \<and>
     buildStoragePath ''ed1'' ''low'' 10 = ''ed1/pages/low/010.webp''"
proof -
  let ?run = "convert demo_config (ok_world [''page-1.png'']) tiny_request init_state"
  let ?run2 = "convert demo_config (ok_world [''page-1.png'']) tiny_request (snd ?run)"
  have run: "?run = (fst ?run, snd ?run)" and run2: "?run2 = (fst ?run2, snd ?run2)" by simp_all
  note ok = tiny_run_response [THEN arg_cong, of body, simplified]
  note ok2 = ok [folded tiny_rerun_response]
  have e: "str_of (body_editionId tiny_request) = ''ed1''"
    "map key (req_variants tiny_request) = [''medium'']"
    "key (req_thumbnail tiny_request) = ''tiny''"
    by (simp_all add: str_of_def tiny_request_def demo_request_def req_variants_def
        req_thumbnail_def)
  from C2_storage_paths [OF run ok run2 ok2, of "''ed1''" "''low''" 10] show ?thesis
    by (simp add: ok ok2 e spec_uploads_def spec_storagePath_def zero_padded3_def
        String_of.simps digit_char_def numeral_2_eq_2)
qed

text \<open>
  C3. When the handler answers with success and the rasterization of this request
  yielded the files \<open>pngPages\<close>, then \<open>pages\<close> has as many entries as \<open>pngPages\<close>,
  \<open>uploads\<close> has that number times the number of variants plus one, the manifest path
  is not among \<open>uploads\<close>, and the uploads made are those of \<open>uploads\<close>, in order,
  followed by the one of the manifest.
\<close>

theorem C3_result_counts:
  assumes run: "convert cfg w req s = (res, s')" and ok: "body res = Success sb"
    and acq: "acquire_pages w (str_of (body_pdfUrl req)) (str_of (body_supabaseUrl req))
                (str_of (body_supabaseKey req)) s = (Inr (tempRoot, pngPages), s1)"
  shows "length (res_pages sb) = length pngPages \<and>
         res_totalPages sb = length pngPages \<and>
         length (res_uploads sb) = length pngPages * (length (req_variants req) + 1) \<and>
         res_manifestPath sb \<notin> set (res_uploads sb) \<and>
         uploads_during s s' =
           map (\<lambda>p. (req_bucket cfg req, p, True)) (res_uploads sb) @
           [(req_bucket cfg req, res_manifestPath sb, True)]"
proof -
  from run ok obtain tempRoot' pngPages' s1' where
    acq': "acquire_pages w (str_of (body_pdfUrl req)) (str_of (body_supabaseUrl req))
         (str_of (body_supabaseKey req)) s = (Inr (tempRoot', pngPages'), s1')" and
    f: "res_manifestPath sb = manifestPath (str_of (body_editionId req))"
       "res_totalPages sb = length pngPages'"
       "map pageNumber (res_pages sb) = [1..<Suc (length pngPages')]"
       "res_uploads sb = loop_paths (str_of (body_editionId req)) (req_variants req)
          (req_thumbnail req) 0 (length pngPages')"
       "uploads_during s s' =
          map (\<lambda>p. (req_bucket cfg req, p, True)) (res_uploads sb) @
          [(req_bucket cfg req, res_manifestPath sb, True)]"
    by (rule convert_published)
  from acq acq' have eq: "pngPages' = pngPages" by simp
  from f(3) have "length (res_pages sb) = length pngPages'"
    by (metis length_map length_upt diff_Suc_1)
  with f show ?thesis
    unfolding eq by (simp add: length_loop_paths manifest_not_in_loop_paths)
qed

theorem C3_result_counts_witness:
  "\<exists>sb. body (fst (convert demo_config demo_world demo_request init_state)) = Success sb \<and>
        length (res_pages sb) = 2 \<and> res_totalPages sb = 2 \<and> length (res_uploads sb) = 8 \<and>
        res_manifestPath sb \<notin> set (res_uploads sb)"
proof -
  let ?run = "convert demo_config demo_world demo_request init_state"
  let ?acq = "acquire_pages demo_world (str_of (body_pdfUrl demo_request))
                (str_of (body_supabaseUrl demo_request)) (str_of (body_supabaseKey demo_request))
                init_state"
  have run: "?run = (fst ?run, snd ?run)" by simp
  from demo_run_success obtain sb where ok: "body (fst ?run) = Success sb"
    by (cases "body (fst ?run)") simp_all
  have acq: "?acq = (Inr (''/tmp/pdf-conversion-abc123'',
          [''/tmp/pdf-conversion-abc123/png/page-1.png'',
           ''/tmp/pdf-conversion-abc123/png/page-2.png'']), snd ?acq)"
    using demo_acquire by (simp add: prod_eq_iff str_of_def demo_request_def)
  from C3_result_counts [OF run ok acq] ok show ?thesis
    by (simp add: req_variants_def demo_request_def VARIANTS_def)
qed

text \<open>
  C4. In any run of the handler: if, during the request, the upload of some object
  other than the manifest was refused, the answer is the 500 failure envelope, no
  upload to the manifest path was attempted and the manifest objects of the edition are
  as they were before the request. And if an upload to the manifest path was attempted
  at all, then the rasterization had returned its page files and the uploads made
  before it are exactly those of every page and, within a page, of every configured
  variant and the thumbnail, each accepted by the storage.
\<close>

theorem C4_failed_upload_no_manifest:
  assumes run: "convert cfg w req s = (res, s')"
  shows "((b, p, False) \<in> set (uploads_during s s') \<and>
            p \<noteq> manifestPath (str_of (body_editionId req)) \<longrightarrow>
          status res = 500 \<and> \<not> success (body res) \<and>
          list_all (\<lambda>u. fst (snd u) \<noteq> manifestPath (str_of (body_editionId req)))
            (uploads_during s s') \<and>
          objects s' (b', manifestPath (str_of (body_editionId req))) =
            objects s (b', manifestPath (str_of (body_editionId req)))) \<and>
         ((b2, manifestPath (str_of (body_editionId req)), ok) \<in> set (uploads_during s s') \<longrightarrow>
          (\<exists>tempRoot pngPages s1.
             acquire_pages w (str_of (body_pdfUrl req)) (str_of (body_supabaseUrl req))
               (str_of (body_supabaseKey req)) s = (Inr (tempRoot, pngPages), s1) \<and>
             uploads_during s s' =
               map (\<lambda>q. (req_bucket cfg req, q, True))
                 (spec_uploads (str_of (body_editionId req)) (map key (req_variants req))
                    (key (req_thumbnail req)) (length pngPages)) @
               [(req_bucket cfg req, manifestPath (str_of (body_editionId req)), ok)]))"
  using run
proof (cases rule: convert_cases)
  case unauthorized
  then show ?thesis by (simp add: uploads_during_refl)
next
  case invalid
  then show ?thesis by (simp add: uploads_during_refl)
next
  case (acquire_failed err)
  with acquire_pages_frame(1)[OF acquire_failed(3)] show ?thesis
    by (simp add: uploads_during_same)
next
  case (publish_failed tempRoot pngPages s1 err)
  note fr = acquire_pages_frame[OF publish_failed(3)]
  from publish_pages_fail[OF publish_failed(4)] show ?thesis
  proof (elim disjE conjE)
    assume "s' = s1"
    with fr show ?thesis by (simp add: uploads_during_same)
  next
    assume "only_assets (str_of (body_editionId req)) s1 s'"
    then obtain X where
      X: "upload_calls (calls s') = upload_calls (calls s1) @ X"
         "list_all (\<lambda>u. fst (snd u) \<noteq> manifestPath (str_of (body_editionId req))) X" and
      ob: "\<forall>b. objects s' (b, manifestPath (str_of (body_editionId req))) =
                objects s1 (b, manifestPath (str_of (body_editionId req)))"
      by (auto simp: only_assets_def)
    from X fr have ud: "uploads_during s s' = X" by (simp add: uploads_during_append)
    from X(2) have no: "(b2, manifestPath (str_of (body_editionId req)), ok) \<notin> set X"
      by (auto simp: list_all_iff)
    from ud X(2) ob fr no publish_failed(5) show ?thesis by simp
  next
    assume uc: "upload_calls (calls s') = upload_calls (calls s1) @
        map (\<lambda>p. (req_bucket cfg req, p, True))
          (loop_paths (str_of (body_editionId req)) (req_variants req) (req_thumbnail req) 0
             (length pngPages)) @
        [(req_bucket cfg req, manifestPath (str_of (body_editionId req)), False)]"
    with fr have ud: "uploads_during s s' =
        map (\<lambda>p. (req_bucket cfg req, p, True))
          (loop_paths (str_of (body_editionId req)) (req_variants req) (req_thumbnail req) 0
             (length pngPages)) @
        [(req_bucket cfg req, manifestPath (str_of (body_editionId req)), False)]"
      by (simp add: uploads_during_append)
    have no: "manifestPath (str_of (body_editionId req)) \<notin>
        set (loop_paths (str_of (body_editionId req)) (req_variants req) (req_thumbnail req) 0
             (length pngPages))"
      by (rule manifest_not_in_loop_paths)
    from ud no publish_failed(3) show ?thesis
      by (auto simp: loop_paths_spec)
  qed
next
  case (published tempRoot pngPages s1)
  note fr = acquire_pages_frame[OF published(3)]
  from publish_pages_ok[OF published(4)] fr have ud: "uploads_during s s' =
        map (\<lambda>p. (req_bucket cfg req, p, True))
          (loop_paths (str_of (body_editionId req)) (req_variants req) (req_thumbnail req) 0
             (length pngPages)) @
        [(req_bucket cfg req, manifestPath (str_of (body_editionId req)), True)]"
    by (auto simp: uploads_during_append)
  have no: "manifestPath (str_of (body_editionId req)) \<notin>
        set (loop_paths (str_of (body_editionId req)) (req_variants req) (req_thumbnail req) 0
             (length pngPages))"
    by (rule manifest_not_in_loop_paths)
  from ud no published(3) show ?thesis
    by (auto simp: loop_paths_spec)
qed

theorem C4_failed_upload_no_manifest_witness:
  "(''editions'', ''ed1/pages/tiny/001.webp'', False) \<in>
     set (uploads_during init_state
       (snd (convert demo_config upload_fails_world tiny_request init_state))) \<and>
   ''ed1/pages/tiny/001.webp'' \<noteq> manifestPath (str_of (body_editionId tiny_request)) \<and>
   status (fst (convert demo_config upload_fails_world tiny_request init_state)) = 500 \<and>
   \<not> success (body (fst (convert demo_config upload_fails_world tiny_request init_state))) \<and>
   list_all (\<lambda>u. fst (snd u) \<noteq> ''ed1/manifest.json'')
     (uploads_during init_state
       (snd (convert demo_config upload_fails_world tiny_request init_state))) \<and>
   objects (snd (convert demo_config upload_fails_world tiny_request init_state))
     (''editions'', ''ed1/manifest.json'') = None \<and>
   (''editions'', manifestPath (str_of (body_editionId tiny_request)), True) \<in>
     set (uploads_during init_state
       (snd (convert demo_config (ok_world [''page-1.png'']) tiny_request init_state))) \<and>
   length (uploads_during init_state
       (snd (convert demo_config (ok_world [''page-1.png'']) tiny_request init_state))) = 3"
proof -
  let ?bad = "convert demo_config upload_fails_world tiny_request init_state"
  let ?good = "convert demo_config (ok_world [''page-1.png'']) tiny_request init_state"
  have bad: "?bad = (fst ?bad, snd ?bad)" and good: "?good = (fst ?good, snd ?good)" by simp_all
  have e: "manifestPath (str_of (body_editionId tiny_request)) = ''ed1/manifest.json''"
    by (simp add: manifestPath_def str_of_def tiny_request_def demo_request_def)
  have o: "objects init_state (''editions'', ''ed1/manifest.json'') = None"
    by (simp add: init_state_def)
  from C4_failed_upload_no_manifest [OF bad, where b = "''editions''"
      and p = "''ed1/pages/tiny/001.webp''" and b' = "''editions''"
      and ?b2.0 = "''editions''" and ok = True]
    C4_failed_upload_no_manifest [OF good, where b = "''editions''"
      and p = "''ed1/pages/tiny/001.webp''" and b' = "''editions''"
      and ?b2.0 = "''editions''" and ok = True]
  show ?thesis
    by (simp add: e o upload_fails_run tiny_run_uploads)
qed




text \<open>
  C6. When the handler answers with success, the manifest stored under the response's
  bucket and manifest path has one summary per page of the response, and each summary
  is the specification's fallback rule applied to that page's asset map: low, else
  medium; medium or null; high or null; the asset under the configured thumbnail key,
  else low, else null.
\<close>

theorem C6_manifest_fallbacks:
  assumes run: "convert cfg w req s = (res, s')" and ok: "body res = Success sb"
  shows "\<exists>man. objects s' (res_bucket sb, res_manifestPath sb) = Some (ManifestJson man) \<and>
           manifest_pages man = map (spec_manifest_page (key (req_thumbnail req))) (res_pages sb)"
proof -
  from ok have "success (body res)" by simp
  with run obtain tempRoot pngPages s1 where
    pub: "publish_pages w (str_of (body_editionId req)) (str_of (body_supabaseUrl req))
         (req_bucket cfg req) (req_variants req) (req_thumbnail req) tempRoot pngPages s1 =
         (Inr res, s')"
    by (rule convert_success_inv)
  from publish_pages_ok[OF pub] ok show ?thesis
    by (auto simp: manifest_page_of_spec)
qed

theorem C6_manifest_fallbacks_witness:
  "\<exists>man. objects (snd (convert demo_config (ok_world [''page-1.png'']) tiny_request init_state))
            (''editions'', ''ed1/manifest.json'') = Some (ManifestJson man) \<and>
         map lowResImagePath (manifest_pages man) = [Val ''ed1/pages/medium/001.webp''] \<and>
         map mediumImagePath (manifest_pages man) = [Val ''ed1/pages/medium/001.webp''] \<and>
         map highResImagePath (manifest_pages man) = [Null] \<and>
         map thumbnailPath (manifest_pages man) = [Val ''ed1/pages/tiny/001.webp'']"
proof -
  let ?run = "convert demo_config (ok_world [''page-1.png'']) tiny_request init_state"
  have run: "?run = (fst ?run, snd ?run)" by simp
  note ok = tiny_run_response [THEN arg_cong, of body, simplified]
  from C6_manifest_fallbacks [OF run ok] show ?thesis
    by (auto simp: spec_manifest_page_def spec_lowRes_def spec_medium_def spec_highRes_def
        spec_thumbnail_def req_thumbnail_def tiny_request_def demo_request_def)
qed

text \<open>
  C7, as amended. The width passed to \<open>resize\<close> never exceeds the configured width; it is
  \<open>min(config.width, natural width)\<close> when the page's natural width is known (and the
  configured width when it is not), so the rendered image, which by the resize of the
  specification is as wide as that target width, is never wider than the page's natural
  width. The guard \<open>if (config.height)\<close> takes a height of zero like a missing one (the
  counterexample below): with the height absent or zero the resize is by width only,
  without enlargement; with a height present and not zero it is the cover fit to target
  width by height. These are the options \<open>cloneSharpForVariant\<close> hands to the image
  library.
\<close>

theorem C7_target_width:
  "targetWidth md config \<le> width config \<and>
   (md_width md = Some nw \<longrightarrow>
      targetWidth md config = min (width config) nw \<and> targetWidth md config \<le> nw \<and>
      rendered_width nw (resize_for md config) = targetWidth md config \<and>
      rendered_width nw (resize_for md config) \<le> nw) \<and>
   (md_width md = None \<longrightarrow> targetWidth md config = width config) \<and>
   (height config = None \<or> height config = Some 0 \<longrightarrow>
      resize_for md config = WidthOnly (targetWidth md config)) \<and>
   (height config = Some h \<and> h \<noteq> 0 \<longrightarrow>
      resize_for md config = CoverFit (targetWidth md config) h) \<and>
   render_calls (calls (snd (cloneSharpForVariant w input md config s))) =
     render_calls (calls s) @ [(resize_for md config, quality config)]"
  by (auto simp: targetWidth_def resize_for_def rendered_width_def cloneSharpForVariant_def
      log_call_def Let_def split: option.splits sum.splits)

theorem C7_resize_counterexample:
  "height \<lparr>key = ''thumbnail'', width = 360, height = Some 0, quality = 60\<rparr> = Some 0 \<and>
   resize_for \<lparr>md_width = Some 2480, md_height = Some 3508\<rparr>
     \<lparr>key = ''thumbnail'', width = 360, height = Some 0, quality = 60\<rparr> = WidthOnly 360 \<and>
   resize_for \<lparr>md_width = Some 2480, md_height = Some 3508\<rparr>
     \<lparr>key = ''thumbnail'', width = 360, height = Some 0, quality = 60\<rparr> \<noteq> CoverFit (min 360 2480) 0"
  by (simp add: resize_for_def targetWidth_def)

theorem C7_target_width_witness:
  "md_width \<lparr>md_width = Some 1000, md_height = Some 1500\<rparr> = Some 1000 \<and>
   targetWidth \<lparr>md_width = Some 1000, md_height = Some 1500\<rparr>
     \<lparr>key = ''high'', width = 2400, height = None, quality = 90\<rparr> = 1000 \<and>
   resize_for \<lparr>md_width = Some 1000, md_height = Some 1500\<rparr>
     \<lparr>key = ''high'', width = 2400, height = None, quality = 90\<rparr> = WidthOnly 1000 \<and>
   rendered_width 1000 (resize_for \<lparr>md_width = Some 1000, md_height = Some 1500\<rparr>
     \<lparr>key = ''high'', width = 2400, height = None, quality = 90\<rparr>) = 1000 \<and>
   resize_for \<lparr>md_width = Some 1000, md_height = Some 1500\<rparr>
     \<lparr>key = ''wide'', width = 2400, height = Some 160, quality = 50\<rparr> = CoverFit 1000 160 \<and>
   rendered_width 1000 (resize_for \<lparr>md_width = Some 1000, md_height = Some 1500\<rparr>
     \<lparr>key = ''wide'', width = 2400, height = Some 160, quality = 50\<rparr>) = 1000 \<and>
   targetWidth \<lparr>md_width = None, md_height = None\<rparr>
     \<lparr>key = ''high'', width = 2400, height = None, quality = 90\<rparr> = 2400"
  using C7_target_width [where md = "\<lparr>md_width = Some 1000, md_height = Some 1500\<rparr>"
      and config = "\<lparr>key = ''high'', width = 2400, height = None, quality = 90\<rparr>"
      and nw = 1000 and h = 1 and w = "ok_world []" and s = init_state and input = "[]"]
    C7_target_width [where md = "\<lparr>md_width = Some 1000, md_height = Some 1500\<rparr>"
      and config = "\<lparr>key = ''wide'', width = 2400, height = Some 160, quality = 50\<rparr>"
      and nw = 1000 and h = 160 and w = "ok_world []" and s = init_state and input = "[]"]
    C7_target_width [where md = "\<lparr>md_width = None, md_height = None\<rparr>"
      and config = "\<lparr>key = ''high'', width = 2400, height = None, quality = 90\<rparr>"
      and nw = 1 and h = 1 and w = "ok_world []" and s = init_state and input = "[]"]
  by (simp add: targetWidth_def resize_for_def rendered_width_def)

text \<open>
  C8, as amended. The claim as written gives every request with a missing field a 400;
  the handler checks the shared secret first (lines 115-118), so such a request with a
  wrong or missing key gets 401 (the counterexample below). What holds: a
  request in which one of editionId, pdfUrl, supabaseUrl, supabaseKey is missing or
  empty is answered with \<open>success: false\<close> and leaves the whole state as it was (no
  directory, no call to any collaborator, no stored object); when it passes the
  shared-secret check the answer is the 400 validation failure.
\<close>

theorem C8_validation_no_effects:
  assumes "missing_field req"
  shows "snd (convert cfg w req s) = s \<and> \<not> success (body (fst (convert cfg w req s))) \<and>
         (authorized cfg req \<longrightarrow>
            fst (convert cfg w req s) =
              \<lparr>status = 400,
                body = Failure
                  ''Missing required parameters (editionId, pdfUrl, supabaseUrl, supabaseKey)''\<rparr>)"
proof (cases "authorized cfg req")
  case True
  with assms show ?thesis by (simp add: convert_invalid)
next
  case False
  then show ?thesis by (simp add: convert_unauthorized)
qed

theorem C8_validation_counterexample:
  "missing_field (demo_request\<lparr>body_editionId := None\<rparr>) \<and>
   fst (convert secret_config (ok_world []) (demo_request\<lparr>body_editionId := None\<rparr>) init_state) =
     \<lparr>status = 401, body = Failure ''Unauthorized''\<rparr> \<and>
   status (fst (convert secret_config (ok_world []) (demo_request\<lparr>body_editionId := None\<rparr>)
     init_state)) \<noteq> 400"
  by (simp add: missing_field_def falsy_def convert_def convert_try_def secret_config_def
      demo_request_def)

theorem C8_validation_no_effects_witness:
  "missing_field (demo_request\<lparr>body_pdfUrl := Some []\<rparr>) \<and>
   authorized demo_config (demo_request\<lparr>body_pdfUrl := Some []\<rparr>) \<and>
   convert demo_config (ok_world [''page-1.png'']) (demo_request\<lparr>body_pdfUrl := Some []\<rparr>) init_state =
     (\<lparr>status = 400,
       body = Failure
         ''Missing required parameters (editionId, pdfUrl, supabaseUrl, supabaseKey)''\<rparr>, init_state)"
proof -
  have m: "missing_field (demo_request\<lparr>body_pdfUrl := Some []\<rparr>)"
    by (simp add: missing_field_def falsy_def demo_request_def)
  have a: "authorized demo_config (demo_request\<lparr>body_pdfUrl := Some []\<rparr>)"
    by (simp add: authorized_def demo_config_def)
  from C8_validation_no_effects [OF m, of demo_config "ok_world [''page-1.png'']" init_state] a m
  show ?thesis by (simp add: prod_eq_iff)
qed

text \<open>
  C9. When a request has passed the shared-secret check and the validation, and the
  rasterization returns no page file, the handler answers 500 with the message
  \<open>No pages produced during PDF conversion\<close> in the state the rasterization left: no
  image was rendered, nothing was uploaded and no object of the storage changed, so no
  manifest was published.
\<close>

theorem C9_zero_pages:
  assumes a: "authorized cfg req" and m: "\<not> missing_field req"
    and acq: "acquire_pages w (str_of (body_pdfUrl req)) (str_of (body_supabaseUrl req))
                (str_of (body_supabaseKey req)) s = (Inr (tempRoot, []), s1)"
  shows "convert cfg w req s =
           (\<lparr>status = 500, body = Failure ''No pages produced during PDF conversion''\<rparr>, s1) \<and>
         render_calls (calls s1) = render_calls (calls s) \<and>
         upload_calls (calls s1) = upload_calls (calls s) \<and>
         objects s1 = objects s"
  using acquire_pages_frame[OF acq] a m acq
  by (simp add: convert_def convert_valid publish_pages_def)

theorem C9_zero_pages_witness:
  "authorized demo_config demo_request \<and> \<not> missing_field demo_request \<and>
   fst (convert demo_config (ok_world []) demo_request init_state) =
     \<lparr>status = 500, body = Failure ''No pages produced during PDF conversion''\<rparr> \<and>
   render_calls (calls (snd (convert demo_config (ok_world []) demo_request init_state))) = [] \<and>
   upload_calls (calls (snd (convert demo_config (ok_world []) demo_request init_state))) = []"
proof -
  let ?acq = "acquire_pages (ok_world []) (str_of (body_pdfUrl demo_request))
                (str_of (body_supabaseUrl demo_request)) (str_of (body_supabaseKey demo_request))
                init_state"
  have a: "authorized demo_config demo_request" by (simp add: authorized_def demo_config_def)
  have m: "\<not> missing_field demo_request"
    by (simp add: missing_field_def falsy_def demo_request_def)
  have acq: "?acq = (Inr (''/tmp/pdf-conversion-abc123'', []), snd ?acq)"
    using empty_acquire by (simp add: prod_eq_iff str_of_def demo_request_def)
  from C9_zero_pages [OF a m acq] a m show ?thesis
    by (simp add: init_state_def)
qed

text \<open>
  C10. With an empty service secret the shared-secret check is skipped: the handler's
  result does not depend on the \<open>X-Api-Key\<close> header and is never a 401. With a
  non-empty secret, a request whose header is not that secret (or is missing) gets
  401 with \<open>success: false\<close>, and the state is left as it was: nothing was validated
  or started.
\<close>

theorem C10_shared_secret_gate:
  "(SERVICE_SECRET cfg = [] \<longrightarrow>
      convert cfg w (req\<lparr>x_api_key := h\<rparr>) s = convert cfg w req s \<and>
      status (fst (convert cfg w req s)) \<noteq> 401) \<and>
   (SERVICE_SECRET cfg \<noteq> [] \<and> x_api_key req \<noteq> Some (SERVICE_SECRET cfg) \<longrightarrow>
      convert cfg w req s = (\<lparr>status = 401, body = Failure ''Unauthorized''\<rparr>, s))"
proof (intro conjI impI)
  assume e: "SERVICE_SECRET cfg = []"
  then show "convert cfg w (req\<lparr>x_api_key := h\<rparr>) s = convert cfg w req s"
    by (simp add: convert_def convert_try_def req_bucket_def req_variants_def req_thumbnail_def)
  from e have "authorized cfg req" by (simp add: authorized_def)
  from convert_authorized_status[OF this, of w s]
  show "status (fst (convert cfg w req s)) \<noteq> 401" by auto
next
  assume "SERVICE_SECRET cfg \<noteq> [] \<and> x_api_key req \<noteq> Some (SERVICE_SECRET cfg)"
  then have "\<not> authorized cfg req" by (simp add: authorized_def)
  then show "convert cfg w req s = (\<lparr>status = 401, body = Failure ''Unauthorized''\<rparr>, s)"
    by (rule convert_unauthorized)
qed

theorem C10_shared_secret_gate_witness:
  "SERVICE_SECRET demo_config = [] \<and>
   convert demo_config (ok_world []) (demo_request\<lparr>x_api_key := Some ''anything''\<rparr>) init_state =
     convert demo_config (ok_world []) demo_request init_state \<and>
   status (fst (convert demo_config (ok_world []) demo_request init_state)) \<noteq> 401 \<and>
   SERVICE_SECRET secret_config \<noteq> [] \<and>
   x_api_key (demo_request\<lparr>x_api_key := Some ''wrong''\<rparr>) \<noteq> Some (SERVICE_SECRET secret_config) \<and>
   convert secret_config (ok_world []) (demo_request\<lparr>x_api_key := Some ''wrong''\<rparr>) init_state =
     (\<lparr>status = 401, body = Failure ''Unauthorized''\<rparr>, init_state)"
  using C10_shared_secret_gate [where cfg = demo_config and w = "ok_world []" and req = demo_request
      and h = "Some ''anything''" and s = init_state]
    C10_shared_secret_gate [where cfg = secret_config and w = "ok_world []"
      and req = "demo_request\<lparr>x_api_key := Some ''wrong''\<rparr>" and h = None and s = init_state]
  by (simp add: demo_config_def secret_config_def demo_request_def)

end
